theory Spec2Isabelle
  imports Complex_Main
begin

section \<open>Python values, errors and helpers\<close>

text \<open>
  The extractors of \<^verbatim>\<open>hachoir_metadata/video.py\<close> are Python 2 methods that read a parsed
  field tree and write attributes into a metadata record.  Exceptions are modelled as the
  left summand of a result type.  \<open>TypeError\<close> stands for every failure caused by a leaf
  whose kind is not the one the extractor's arithmetic needs (the field tree is expected to
  fail fast on a type mismatch).  Python floats are modelled as exact real numbers, and a
  \<^verbatim>\<open>timedelta\<close> as the exact number of seconds it holds: binary rounding and the
  microsecond resolution of \<^verbatim>\<open>timedelta\<close> are not modelled.
\<close>

datatype error = HachoirError string | MissingField | TypeError | ZeroDivisionError

datatype pyval =
    PNone
  | PBool bool
  | PInt int
  | PFloat real
  | PStr string
  | PUni string
  | PDelta real
  | PDatetime int
  | PPair pyval pyval

text \<open>The number a Python numeric value denotes (\<^verbatim>\<open>bool\<close> is a subtype of \<^verbatim>\<open>int\<close>).\<close>

fun py_num :: "pyval \<Rightarrow> real option" where
  "py_num (PBool b) = Some (if b then 1 else 0)"
| "py_num (PInt i) = Some (of_int i)"
| "py_num (PFloat r) = Some r"
| "py_num _ = None"

text \<open>The text of a byte string (\<open>PStr\<close>) or of a unicode string (\<open>PUni\<close>).\<close>

fun py_text :: "pyval \<Rightarrow> string option" where
  "py_text (PStr s) = Some s"
| "py_text (PUni s) = Some s"
| "py_text _ = None"

fun is_str :: "pyval \<Rightarrow> bool" where
  "is_str (PStr s) = True"
| "is_str _ = False"

fun is_unicode :: "pyval \<Rightarrow> bool" where
  "is_unicode (PUni s) = True"
| "is_unicode _ = False"

text \<open>Python truth value, as tested by \<^verbatim>\<open>if value:\<close> and \<^verbatim>\<open>if not value:\<close>.\<close>

fun py_truth :: "pyval \<Rightarrow> bool" where
  "py_truth PNone = False"
| "py_truth (PBool b) = b"
| "py_truth (PInt i) = (i \<noteq> 0)"
| "py_truth (PFloat r) = (r \<noteq> 0)"
| "py_truth (PStr s) = (s \<noteq> [])"
| "py_truth (PUni s) = (s \<noteq> [])"
| "py_truth (PDelta r) = (r \<noteq> 0)"
| "py_truth (PDatetime t) = True"
| "py_truth (PPair a b) = True"

text \<open>Python equality \<^verbatim>\<open>==\<close>: numbers compare by value, strings by text.\<close>

definition py_eq :: "pyval \<Rightarrow> pyval \<Rightarrow> bool" where
  "py_eq a b =
     (case (py_num a, py_num b) of
        (Some x, Some y) \<Rightarrow> x = y
      | (Some x, None) \<Rightarrow> False
      | (None, Some y) \<Rightarrow> False
      | (None, None) \<Rightarrow>
          (case (py_text a, py_text b) of
             (Some s, Some t) \<Rightarrow> s = t
           | (Some s, None) \<Rightarrow> False
           | (None, Some t) \<Rightarrow> False
           | (None, None) \<Rightarrow> a = b))"

text \<open>\<^verbatim>\<open>int(x)\<close> on a number truncates towards zero.\<close>

fun py_int :: "pyval \<Rightarrow> error + int" where
  "py_int (PBool b) = Inr (if b then 1 else 0)"
| "py_int (PInt i) = Inr i"
| "py_int (PFloat r) = Inr (if 0 \<le> r then \<lfloor>r\<rfloor> else \<lceil>r\<rceil>)"
| "py_int _ = Inl TypeError"

text \<open>
  Python 2 arithmetic: \<^verbatim>\<open>*\<close> and \<^verbatim>\<open>/\<close> on two integers give an integer (\<^verbatim>\<open>/\<close> is
  floor division, as the module does not import true division), on a float and a number
  they give a float.  Division by zero raises.
\<close>

fun py_intval :: "pyval \<Rightarrow> int option" where
  "py_intval (PBool b) = Some (if b then 1 else 0)"
| "py_intval (PInt i) = Some i"
| "py_intval _ = None"

definition py_mul :: "pyval \<Rightarrow> pyval \<Rightarrow> error + pyval" where
  "py_mul a b =
     (case (py_intval a, py_intval b) of
        (Some i, Some j) \<Rightarrow> Inr (PInt (i * j))
      | _ \<Rightarrow>
          (case (py_num a, py_num b) of
             (Some x, Some y) \<Rightarrow> Inr (PFloat (x * y))
           | _ \<Rightarrow> Inl TypeError))"

definition py_div :: "pyval \<Rightarrow> pyval \<Rightarrow> error + pyval" where
  "py_div a b =
     (case (py_intval a, py_intval b) of
        (Some i, Some j) \<Rightarrow> if j = 0 then Inl ZeroDivisionError else Inr (PInt (i div j))
      | _ \<Rightarrow>
          (case (py_num a, py_num b) of
             (Some x, Some y) \<Rightarrow> if y = 0 then Inl ZeroDivisionError else Inr (PFloat (x / y))
           | _ \<Rightarrow> Inl TypeError))"

text \<open>\<^verbatim>\<open>timedelta(seconds=x)\<close>.\<close>

definition timedelta :: "pyval \<Rightarrow> error + pyval" where
  "timedelta x = (case py_num x of None \<Rightarrow> Inl TypeError | Some r \<Rightarrow> Inr (PDelta r))"

text \<open>Decimal text of a number, as \<^verbatim>\<open>"%u"\<close> and \<^verbatim>\<open>"%s"\<close> print it.\<close>

fun show_nat :: "nat \<Rightarrow> string" where
  "show_nat n =
     (if n < 10 then [''0123456789'' ! n]
      else show_nat (n div 10) @ [''0123456789'' ! (n mod 10)])"

declare show_nat.simps [simp del]

definition show_int :: "int \<Rightarrow> string" where
  "show_int i = (if i < 0 then ''-'' @ show_nat (nat (- i)) else show_nat (nat i))"

text \<open>Sequencing of a step that may raise.\<close>

definition then_do :: "error + 'a \<Rightarrow> ('a \<Rightarrow> error + 'b) \<Rightarrow> error + 'b" where
  "then_do r f = (case r of Inl e \<Rightarrow> Inl e | Inr x \<Rightarrow> f x)"

text \<open>A \<^verbatim>\<open>for\<close> loop whose body updates a state and may raise.\<close>

fun for_each :: "('s \<Rightarrow> 'a \<Rightarrow> error + 's) \<Rightarrow> 's \<Rightarrow> 'a list \<Rightarrow> error + 's" where
  "for_each f s [] = Inr s"
| "for_each f s (x # xs) = (case f s x of Inl e \<Rightarrow> Inl e | Inr s' \<Rightarrow> for_each f s' xs)"

section \<open>The field tree\<close>

text \<open>
  Modelled from the spec: the field tree is built by the container parsers, which are not
  part of the source under study.  It is a hierarchical, read-only view of a parsed
  container, addressable by path, index and array.  A field has a name, a value, a display
  text, a description, a size and an ordered list of children.  A name is either plain
  (\<^verbatim>\<open>"header"\<close>) or indexed (\<^verbatim>\<open>"Segment[0]"\<close>); the path \<^verbatim>\<open>"a/b[2]/c"\<close> is the list
  \<open>[Name ''a'', Idx ''b'' 2, Name ''c'']\<close>.
\<close>

datatype fieldname = Name string | Idx string nat

datatype field =
  MkField (fname: fieldname) (fvalue: pyval) (fdisplay: string) (fdescription: string)
    (fsize: int) (fchildren: "field list")

definition child :: "field \<Rightarrow> fieldname \<Rightarrow> field option" where
  "child f n = find (\<lambda>c. fname c = n) (fchildren f)"

text \<open>\<open>lookup f path\<close> is \<^verbatim>\<open>f[path]\<close>, with \<open>None\<close> where Python raises MissingField.\<close>

fun lookup :: "field \<Rightarrow> fieldname list \<Rightarrow> field option" where
  "lookup f [] = Some f"
| "lookup f (n # ns) = (case child f n of None \<Rightarrow> None | Some c \<Rightarrow> lookup c ns)"

declare lookup.simps [simp del]

text \<open>\<^verbatim>\<open>path in f\<close>.\<close>

definition contains :: "field \<Rightarrow> fieldname list \<Rightarrow> bool" where
  "contains f path = (lookup f path \<noteq> None)"

text \<open>\<^verbatim>\<open>f[path]\<close> where a missing field propagates as an exception.\<close>

definition getfield :: "field \<Rightarrow> fieldname list \<Rightarrow> error + field" where
  "getfield f path = (case lookup f path of None \<Rightarrow> Inl MissingField | Some c \<Rightarrow> Inr c)"

text \<open>
  \<^verbatim>\<open>f.array(base)\<close>: the children \<^verbatim>\<open>base[0]\<close>, \<^verbatim>\<open>base[1]\<close>, ... up to the first index
  that is missing.
\<close>

function array_from :: "field list \<Rightarrow> string \<Rightarrow> nat \<Rightarrow> field list" where
  "array_from cs base i =
     (case find (\<lambda>c. fname c = Idx base i) cs of
        None \<Rightarrow> []
      | Some c \<Rightarrow> c # array_from cs base (Suc i))"
  by pat_completeness auto
termination
proof (relation "measure (\<lambda>(cs, base, i).
         length (filter (\<lambda>c. \<exists>j. i \<le> j \<and> fname c = Idx base j) cs))")
  show "wf (measure (\<lambda>(cs, base, i).
         length (filter (\<lambda>c. \<exists>j. i \<le> j \<and> fname c = Idx base j) cs)))"
    by simp
next
  fix cs :: "field list" and base :: string and i :: nat and c :: field
  assume found: "find (\<lambda>c. fname c = Idx base i) cs = Some c"
  let ?P = "\<lambda>c. \<exists>j. i \<le> j \<and> fname c = Idx base j"
  let ?Q = "\<lambda>c. \<exists>j. Suc i \<le> j \<and> fname c = Idx base j"
  from found have c: "c \<in> set cs" "fname c = Idx base i"
    by (auto simp: find_Some_iff)
  have split: "filter ?Q cs = filter ?Q (filter ?P cs)"
    by (auto intro!: filter_cong)
  have "c \<in> set (filter ?P cs)" using c by auto
  moreover have "\<not> ?Q c" using c by auto
  ultimately have "length (filter ?Q (filter ?P cs)) < length (filter ?P cs)"
    by (rule length_filter_less)
  with split show "((cs, base, Suc i), (cs, base, i)) \<in> measure (\<lambda>(cs, base, i).
         length (filter (\<lambda>c. \<exists>j. i \<le> j \<and> fname c = Idx base j) cs))"
    by simp
qed

declare array_from.simps [simp del]

definition array :: "field \<Rightarrow> string \<Rightarrow> field list" where
  "array f base = array_from (fchildren f) base 0"

text \<open>\<^verbatim>\<open>name.startswith(base + "[")\<close> for a field name.\<close>

fun is_indexed :: "string \<Rightarrow> fieldname \<Rightarrow> bool" where
  "is_indexed base (Idx b i) = (b = base)"
| "is_indexed base (Name n) = False"

section \<open>The metadata record\<close>

text \<open>
  Modelled from the spec: the classes \<^verbatim>\<open>Metadata\<close> and \<^verbatim>\<open>MultipleMetadata\<close> of
  \<^verbatim>\<open>hachoir_metadata.metadata\<close> are not part of the source under study.  An attribute is a
  named slot of a closed vocabulary holding an ordered list of candidate values; a record
  maps attribute names to attributes.  \<open>setAttribute\<close> appends a non-empty candidate,
  ignoring duplicates; \<open>has\<close> tests presence; \<open>get\<close> returns the current best value, which is
  the last one written (last write wins), or \<open>None\<close> for NotFound; \<open>addGroup\<close> appends a child
  record under an auto-incrementing per-name index, in call order.
\<close>

datatype attr =
    title | url | copyright | creation_date | subtitle_author | language | compression
  | width | height | sample_rate | nb_channel | duration | producer | bits_per_sample
  | format_version | bit_rate | frame_rate | last_modification | comment | album
  | track_number | author | bits_per_pixel

type_synonym metadata = "attr \<Rightarrow> pyval list"

definition Metadata :: metadata where
  "Metadata = (\<lambda>k. [])"

definition is_empty_value :: "pyval \<Rightarrow> bool" where
  "is_empty_value v = (v = PNone \<or> v = PStr [] \<or> v = PUni [])"

definition setAttribute :: "metadata \<Rightarrow> attr \<Rightarrow> pyval \<Rightarrow> metadata" where
  "setAttribute m k v = (if is_empty_value v \<or> v \<in> set (m k) then m else m(k := m k @ [v]))"

definition has :: "metadata \<Rightarrow> attr \<Rightarrow> bool" where
  "has m k = (m k \<noteq> [])"

definition get :: "metadata \<Rightarrow> attr \<Rightarrow> pyval option" where
  "get m k = (if m k = [] then None else Some (last (m k)))"

record group =
  gname :: string
  gindex :: nat
  grecord :: metadata
  gdescription :: "string option"

record multiple_metadata =
  attrs :: metadata
  groups :: "group list"

definition MultipleMetadata :: multiple_metadata where
  "MultipleMetadata = \<lparr>attrs = Metadata, groups = []\<rparr>"

definition addGroup ::
  "multiple_metadata \<Rightarrow> string \<Rightarrow> metadata \<Rightarrow> string option \<Rightarrow> multiple_metadata" where
  "addGroup mm key m header =
     mm\<lparr>groups := groups mm @
        [\<lparr>gname = key, gindex = length (filter (\<lambda>g. gname g = key) (groups mm)),
          grecord = m, gdescription = header\<rparr>]\<rparr>"

text \<open>\<^verbatim>\<open>self.key = value\<close> on a record that also has groups.\<close>

definition set_self :: "multiple_metadata \<Rightarrow> attr \<Rightarrow> pyval \<Rightarrow> multiple_metadata" where
  "set_self mm k v = mm\<lparr>attrs := setAttribute (attrs mm) k v\<rparr>"

section \<open>Helpers of other modules\<close>

text \<open>
  The extractors call helpers of \<^verbatim>\<open>hachoir_core\<close> and \<^verbatim>\<open>hachoir_parser\<close> that are not
  part of the source under study, and Python's formatting of values other than strings and
  integers.  They are parameters of the model: every theorem holds for all of them.
\<close>

record externals =
  makePrintable :: "string \<Rightarrow> string"
  durationWin64 :: "pyval \<Rightarrow> error + pyval"
  dateToDatetime :: "pyval \<Rightarrow> pyval"
  getSampleRate :: "field \<Rightarrow> error + pyval"
  TYPE_BYTE_ARRAY :: pyval
  field_truth :: "field \<Rightarrow> bool"
  str_other :: "pyval \<Rightarrow> string"
  format_1f :: "real \<Rightarrow> string"

text \<open>
  Modelled from the spec: \<^verbatim>\<open>timedelta2seconds\<close> of \<^verbatim>\<open>hachoir_core.tools\<close> gives the
  duration in seconds of a duration value.
\<close>

definition timedelta2seconds :: "pyval \<Rightarrow> error + real" where
  "timedelta2seconds v = (case v of PDelta r \<Rightarrow> Inr r | _ \<Rightarrow> Inl TypeError)"

text \<open>\<^verbatim>\<open>"%s" % v\<close>.\<close>

definition py_str :: "externals \<Rightarrow> pyval \<Rightarrow> string" where
  "py_str E v =
     (case v of
        PStr s \<Rightarrow> s
      | PUni s \<Rightarrow> s
      | PInt i \<Rightarrow> show_int i
      | PBool b \<Rightarrow> (if b then ''True'' else ''False'')
      | PNone \<Rightarrow> ''None''
      | _ \<Rightarrow> str_other E v)"

section \<open>Matroska\<close>

definition tag_key :: "string \<Rightarrow> attr option" where
  "tag_key = map_of
     [(''TITLE'', title), (''URL'', url), (''COPYRIGHT'', copyright),
      (''DATE_RECORDED'', creation_date), (''SUBTITLE'', subtitle_author)]"

definition processSimpleTag :: "multiple_metadata \<Rightarrow> field \<Rightarrow> multiple_metadata" where
  "processSimpleTag self tag =
     (case (lookup tag [Name ''TagName'', Name ''unicode''],
            lookup tag [Name ''TagString'', Name ''unicode'']) of
        (Some n, Some s) \<Rightarrow>
          (case py_text (fvalue n) of
             None \<Rightarrow> self
           | Some name \<Rightarrow>
               (case tag_key name of
                  None \<Rightarrow> self
                | Some key \<Rightarrow> set_self self key (fvalue s)))
      | _ \<Rightarrow> self)"

definition processTag :: "multiple_metadata \<Rightarrow> field \<Rightarrow> multiple_metadata" where
  "processTag self tag = fold (\<lambda>f m. processSimpleTag m f) (array tag ''SimpleTag'') self"

text \<open>
  The duration of \<open>processInfo\<close>: \<open>Inr None\<close> when the guard fails.  In Python 2
  \<^verbatim>\<open>0 < None\<close> is false; any other value that is not a number ends in a TypeError.
\<close>

definition info_duration :: "field \<Rightarrow> error + pyval option" where
  "info_duration info =
     (case (lookup info [Name ''Duration'', Name ''float''],
            lookup info [Name ''TimecodeScale'', Name ''unsigned'']) of
        (Some d, Some s) \<Rightarrow>
          (if fvalue d = PNone then Inr None
           else
             (case py_num (fvalue d) of
                None \<Rightarrow> Inl TypeError
              | Some x \<Rightarrow>
                  if 0 < x then
                    (case py_num (fvalue s) of
                       None \<Rightarrow> Inl TypeError
                     | Some y \<Rightarrow> Inr (Some (PDelta (x * y * (1 / 10 ^ 9)))))
                  else Inr None))
      | _ \<Rightarrow> Inr None)"

definition processInfo :: "externals \<Rightarrow> multiple_metadata \<Rightarrow> field \<Rightarrow> error + multiple_metadata" where
  "processInfo E self info =
     then_do (info_duration info) (\<lambda>seconds.
       let self = (case seconds of None \<Rightarrow> self | Some v \<Rightarrow> set_self self duration v);
           self = (case lookup info [Name ''DateUTC'', Name ''date''] of
                     None \<Rightarrow> self
                   | Some f \<Rightarrow> set_self self creation_date (dateToDatetime E (fvalue f)));
           self = (case lookup info [Name ''WritingApp'', Name ''unicode''] of
                     None \<Rightarrow> self
                   | Some f \<Rightarrow> set_self self producer (fvalue f));
           self = (case lookup info [Name ''MuxingApp'', Name ''unicode''] of
                     None \<Rightarrow> self
                   | Some f \<Rightarrow> set_self self producer (fvalue f));
           self = (case lookup info [Name ''Title'', Name ''unicode''] of
                     None \<Rightarrow> self
                   | Some f \<Rightarrow> set_self self title (fvalue f))
       in Inr self)"

definition trackCommon :: "field \<Rightarrow> metadata \<Rightarrow> metadata" where
  "trackCommon track meta =
     (let meta = (case lookup track [Name ''Name'', Name ''unicode''] of
                    None \<Rightarrow> meta
                  | Some f \<Rightarrow> setAttribute meta title (fvalue f))
      in case lookup track [Name ''Language'', Name ''string''] of
           None \<Rightarrow> meta
         | Some f \<Rightarrow>
             if py_text (fvalue f) = Some ''mis'' \<or> py_text (fvalue f) = Some ''und'' then meta
             else setAttribute meta language (PUni (fdisplay f)))"

text \<open>
  The bodies of the three \<^verbatim>\<open>try\<close> blocks.  A lookup that yields \<open>None\<close> is the MissingField
  that the \<^verbatim>\<open>except\<close> clause catches: the rest of the body is skipped and the record keeps
  what was written before.  Any other exception is not caught.
\<close>

definition video_body :: "field \<Rightarrow> metadata \<Rightarrow> metadata" where
  "video_body track video =
     (let video = trackCommon track video
      in case lookup track [Name ''CodecID'', Name ''string''] of
           None \<Rightarrow> video
         | Some c \<Rightarrow>
             let video = setAttribute video compression (fvalue c)
             in if contains track [Name ''Video''] then
                  (case lookup track [Name ''Video'', Name ''PixelWidth'', Name ''unsigned''] of
                     None \<Rightarrow> video
                   | Some w \<Rightarrow>
                       let video = setAttribute video width (fvalue w)
                       in (case lookup track [Name ''Video'', Name ''PixelHeight'', Name ''unsigned''] of
                             None \<Rightarrow> video
                           | Some h \<Rightarrow> setAttribute video height (fvalue h)))
                else video)"

definition processVideo :: "multiple_metadata \<Rightarrow> field \<Rightarrow> multiple_metadata" where
  "processVideo self track =
     addGroup self ''video[]'' (video_body track Metadata) (Some ''Video stream'')"

definition audio_codec :: "field \<Rightarrow> metadata \<Rightarrow> metadata" where
  "audio_codec track audio =
     (case lookup track [Name ''CodecID'', Name ''string''] of
        None \<Rightarrow> audio
      | Some c \<Rightarrow> setAttribute audio compression (fvalue c))"

definition audio_body :: "field \<Rightarrow> metadata \<Rightarrow> error + metadata" where
  "audio_body track audio =
     (let audio = trackCommon track audio
      in if contains track [Name ''Audio''] then
           (case lookup track [Name ''Audio'', Name ''SamplingFrequency'', Name ''float''] of
              None \<Rightarrow> Inr audio
            | Some f \<Rightarrow>
                then_do (py_int (fvalue f)) (\<lambda>rate.
                  let audio = setAttribute audio sample_rate (PInt rate)
                  in (case lookup track [Name ''Audio'', Name ''Channels'', Name ''unsigned''] of
                        None \<Rightarrow> Inr audio
                      | Some c \<Rightarrow>
                          Inr (audio_codec track (setAttribute audio nb_channel (fvalue c))))))
         else Inr (audio_codec track audio))"

definition processAudio :: "multiple_metadata \<Rightarrow> field \<Rightarrow> error + multiple_metadata" where
  "processAudio self track =
     then_do (audio_body track Metadata) (\<lambda>audio.
       Inr (addGroup self ''audio[]'' audio (Some ''Audio stream'')))"

definition subtitle_body :: "field \<Rightarrow> metadata \<Rightarrow> metadata" where
  "subtitle_body track sub =
     (let sub = trackCommon track sub
      in case lookup track [Name ''CodecID'', Name ''string''] of
           None \<Rightarrow> sub
         | Some c \<Rightarrow> setAttribute sub compression (fvalue c))"

definition processSubtitle :: "multiple_metadata \<Rightarrow> field \<Rightarrow> multiple_metadata" where
  "processSubtitle self track =
     addGroup self ''subtitle[]'' (subtitle_body track Metadata) (Some ''Subtitle'')"

definition processTrack :: "multiple_metadata \<Rightarrow> field \<Rightarrow> error + multiple_metadata" where
  "processTrack self track =
     (case lookup track [Name ''TrackType'', Name ''enum''] of
        None \<Rightarrow> Inr self
      | Some t \<Rightarrow>
          if fdisplay t = ''video'' then Inr (processVideo self track)
          else if fdisplay t = ''audio'' then processAudio self track
          else if fdisplay t = ''subtitle'' then Inr (processSubtitle self track)
          else Inr self)"

definition processTracks :: "multiple_metadata \<Rightarrow> field \<Rightarrow> error + multiple_metadata" where
  "processTracks self tracks = for_each processTrack self (array tracks ''TrackEntry'')"

definition processSegment_field ::
  "externals \<Rightarrow> multiple_metadata \<Rightarrow> field \<Rightarrow> error + multiple_metadata" where
  "processSegment_field E self field =
     (if is_indexed ''Info'' (fname field) then processInfo E self field
      else if is_indexed ''Tags'' (fname field) then
        Inr (fold (\<lambda>tag m. processTag m tag) (array field ''Tag'') self)
      else if is_indexed ''Tracks'' (fname field) then processTracks self field
      else Inr self)"

definition processSegment :: "externals \<Rightarrow> multiple_metadata \<Rightarrow> field \<Rightarrow> error + multiple_metadata" where
  "processSegment E self segment = for_each (processSegment_field E) self (fchildren segment)"

definition MkvMetadata_extract :: "externals \<Rightarrow> multiple_metadata \<Rightarrow> field \<Rightarrow> error + multiple_metadata" where
  "MkvMetadata_extract E self mkv =
     (if \<not> contains mkv [Idx ''Segment'' 0] then Inl (HachoirError ''Invalid Matroska video'')
      else for_each (processSegment E) self (array mkv ''Segment''))"

section \<open>Flash Video\<close>

definition amf_item :: "multiple_metadata \<Rightarrow> field \<Rightarrow> error + multiple_metadata" where
  "amf_item self entry =
     then_do (getfield entry [Name ''key'']) (\<lambda>k.
       let key = fvalue k
       in if py_eq key (PStr ''duration'') then
            then_do (getfield entry [Name ''value'']) (\<lambda>v.
              then_do (timedelta (fvalue v)) (\<lambda>d. Inr (set_self self duration d)))
          else if py_eq key (PStr ''creator'') then
            then_do (getfield entry [Name ''value'']) (\<lambda>v.
              Inr (set_self self producer (fvalue v)))
          else if py_eq key (PStr ''audiosamplerate'') then
            then_do (getfield entry [Name ''value'']) (\<lambda>v.
              then_do (py_int (fvalue v)) (\<lambda>n. Inr (set_self self sample_rate (PInt n))))
          else if py_eq key (PStr ''framerate'') then
            then_do (getfield entry [Name ''value'']) (\<lambda>v.
              Inr (set_self self frame_rate (fvalue v)))
          else if py_eq key (PStr ''metadatacreator'') then
            then_do (getfield entry [Name ''value'']) (\<lambda>v.
              Inr (set_self self producer (fvalue v)))
          else if py_eq key (PStr ''metadatadate'') then
            Inr (set_self self creation_date (fvalue entry))
          else if py_eq key (PStr ''width'') then
            then_do (getfield entry [Name ''value'']) (\<lambda>v.
              then_do (py_int (fvalue v)) (\<lambda>n. Inr (set_self self width (PInt n))))
          else if py_eq key (PStr ''height'') then
            then_do (getfield entry [Name ''value'']) (\<lambda>v.
              then_do (py_int (fvalue v)) (\<lambda>n. Inr (set_self self height (PInt n))))
          else Inr self)"

definition extractAMF :: "multiple_metadata \<Rightarrow> field \<Rightarrow> error + multiple_metadata" where
  "extractAMF self amf = for_each amf_item self (array amf ''item'')"

definition flv_audio :: "externals \<Rightarrow> field \<Rightarrow> error + metadata" where
  "flv_audio E audio =
     then_do (getSampleRate E audio) (\<lambda>rate.
       let meta = setAttribute Metadata sample_rate rate
       in then_do (getfield audio [Name ''is_16bit'']) (\<lambda>b16.
            let meta = setAttribute meta bits_per_sample
                         (PInt (if py_truth (fvalue b16) then 16 else 8))
            in then_do (getfield audio [Name ''codec'']) (\<lambda>codec.
                 then_do
                   (if fdisplay codec = ''MP3'' \<and> contains audio [Name ''music_data''] then
                      then_do (getfield audio [Name ''music_data'']) (\<lambda>md.
                        Inr (PUni (fdescription md)))
                    else Inr (PUni (fdisplay codec)))
                   (\<lambda>c.
                      let meta = setAttribute meta compression c
                      in then_do (getfield audio [Name ''is_stereo'']) (\<lambda>st.
                           Inr (setAttribute meta nb_channel
                                  (PInt (if py_truth (fvalue st) then 2 else 1))))))))"

definition flv_video :: "field \<Rightarrow> error + metadata" where
  "flv_video video =
     then_do (getfield video [Name ''codec'']) (\<lambda>codec.
       Inr (setAttribute Metadata compression (PUni (fdisplay codec))))"

text \<open>\<^verbatim>\<open>flv.size / timedelta2seconds(self.get('duration'))\<close>: an integer over a float.\<close>

definition flv_bit_rate :: "field \<Rightarrow> pyval option \<Rightarrow> error + pyval" where
  "flv_bit_rate flv d =
     (case d of
        None \<Rightarrow> Inl TypeError
      | Some v \<Rightarrow>
          then_do (timedelta2seconds v) (\<lambda>seconds.
            if seconds = 0 then Inl ZeroDivisionError
            else Inr (PFloat (of_int (fsize flv) / seconds))))"

definition FlvMetadata_extract ::
  "externals \<Rightarrow> multiple_metadata \<Rightarrow> field \<Rightarrow> error + multiple_metadata" where
  "FlvMetadata_extract E self flv =
     then_do
       (case lookup flv [Idx ''audio'' 0] of
          None \<Rightarrow> Inr self
        | Some audio \<Rightarrow>
            then_do (flv_audio E audio) (\<lambda>meta. Inr (addGroup self ''audio'' meta None)))
       (\<lambda>self.
          then_do
            (case lookup flv [Idx ''video'' 0] of
               None \<Rightarrow> Inr self
             | Some video \<Rightarrow>
                 then_do (flv_video video) (\<lambda>meta. Inr (addGroup self ''video'' meta None)))
            (\<lambda>self.
               let self = set_self self format_version (PUni (fdescription flv))
               in then_do
                    (case lookup flv [Name ''metadata'', Idx ''entry'' 1] of
                       None \<Rightarrow> Inr self
                     | Some amf \<Rightarrow> extractAMF self amf)
                    (\<lambda>self.
                       if has (attrs self) duration then
                         then_do (flv_bit_rate flv (get (attrs self) duration)) (\<lambda>rate.
                           Inr (set_self self bit_rate rate))
                       else Inr self)))"

section \<open>QuickTime MOV\<close>

definition processMovieHeader :: "externals \<Rightarrow> metadata \<Rightarrow> field \<Rightarrow> error + metadata" where
  "processMovieHeader E self hdr =
     then_do (getfield hdr [Name ''duration'']) (\<lambda>d.
     then_do (py_mul (fvalue d) (PInt 1000)) (\<lambda>ticks1000.
     then_do (getfield hdr [Name ''time_scale'']) (\<lambda>ts.
     then_do (py_div ticks1000 (fvalue ts)) (\<lambda>ms.
       let self = setAttribute self duration ms
       in then_do (getfield hdr [Name ''creat_date'']) (\<lambda>cd.
            let self = setAttribute self creation_date (PUni (fdisplay cd))
            in then_do (getfield hdr [Name ''lastmod_date'']) (\<lambda>lm.
                 let self = setAttribute self last_modification (PUni (fdisplay lm))
                 in then_do (getfield hdr [Name ''play_speed'']) (\<lambda>ps.
                      case py_num (fvalue ps) of
                        None \<Rightarrow> Inl TypeError
                      | Some speed \<Rightarrow>
                          let self = setAttribute self comment
                                (PUni (''Play speed: '' @ format_1f E (speed * 100) @ ''%''))
                          in then_do (getfield hdr [Name ''volume'']) (\<lambda>vol.
                               case py_num (fvalue vol) of
                                 None \<Rightarrow> Inl TypeError
                               | Some v \<Rightarrow>
                                   Inr (setAttribute self comment
                                     (PUni (''User volume: ''
                                        @ format_1f E (of_int \<lfloor>v * 100 / 255\<rfloor>) @ ''%'')))))))))))"

definition processMovie :: "externals \<Rightarrow> metadata \<Rightarrow> field \<Rightarrow> error + metadata" where
  "processMovie E self atom =
     for_each
       (\<lambda>self field.
          case lookup field [Name ''movie_hdr''] of
            None \<Rightarrow> Inr self
          | Some hdr \<Rightarrow> processMovieHeader E self hdr)
       self (fchildren atom)"

definition MovMetadata_extract :: "externals \<Rightarrow> metadata \<Rightarrow> field \<Rightarrow> error + metadata" where
  "MovMetadata_extract E self mov =
     for_each
       (\<lambda>self atom.
          case lookup atom [Name ''movie''] of
            None \<Rightarrow> Inr self
          | Some movie \<Rightarrow> processMovie E self movie)
       self (fchildren mov)"

section \<open>Advanced Systems Format\<close>

definition EXT_DESC_TO_ATTR :: "string \<Rightarrow> attr option" where
  "EXT_DESC_TO_ATTR = map_of
     [(''Encoder'', producer), (''ToolName'', producer), (''AlbumTitle'', album),
      (''Track'', track_number), (''TrackNumber'', track_number), (''Year'', creation_date)]"

definition SKIP_EXT_DESC :: "string list" where
  "SKIP_EXT_DESC = [''WMFSDKNeeded'', ''WMFSDKVersion'', ''Buffer Average'', ''VBR Peak'']"

text \<open>
  The dictionary \<^verbatim>\<open>data\<close>: an entry is the text of the key, whether the key is a byte
  string, and the value.  Python 2 does not fix the order in which a dictionary is
  iterated; the model iterates in the order of insertion.
\<close>

type_synonym pydict = "(string \<times> bool \<times> pyval) list"

fun dict_set :: "pydict \<Rightarrow> string \<Rightarrow> bool \<Rightarrow> pyval \<Rightarrow> pydict" where
  "dict_set [] k b v = [(k, b, v)]"
| "dict_set ((k', b', v') # d) k b v =
     (if k' = k then (k', b', v) # d else (k', b', v') # dict_set d k b v)"

definition dict_has :: "pydict \<Rightarrow> string \<Rightarrow> bool" where
  "dict_has d k = (map_of d k \<noteq> None)"

definition dict_value :: "pydict \<Rightarrow> string \<Rightarrow> pyval" where
  "dict_value d k = (case map_of d k of Some (b, v) \<Rightarrow> v | None \<Rightarrow> PNone)"

definition dict_del :: "pydict \<Rightarrow> string \<Rightarrow> pydict" where
  "dict_del d k = filter (\<lambda>e. fst e \<noteq> k) d"

text \<open>\<^verbatim>\<open>key.split("/", 1)[1]\<close> for a key that contains a slash.\<close>

definition strip_prefix :: "string \<Rightarrow> string" where
  "strip_prefix key =
     (if CHR ''/'' \<in> set key then tl (dropWhile (\<lambda>c. c \<noteq> CHR ''/'') key) else key)"

text \<open>
  \<^verbatim>\<open>"%s (version %s)" % (a, b)\<close> and \<^verbatim>\<open>"%s (%s)" % (a, b)\<close>: the result is a unicode
  string as soon as one argument is.
\<close>

definition py_format2 ::
  "externals \<Rightarrow> pyval \<Rightarrow> string \<Rightarrow> pyval \<Rightarrow> string \<Rightarrow> pyval" where
  "py_format2 E a mid b post =
     (let text = py_str E a @ mid @ py_str E b @ post
      in if is_unicode a \<or> is_unicode b then PUni text else PStr text)"

text \<open>A byte-string value is decoded by \<^verbatim>\<open>makePrintable\<close>; other values are kept.\<close>

definition printable_value :: "externals \<Rightarrow> pyval \<Rightarrow> pyval" where
  "printable_value E v = (case v of PStr s \<Rightarrow> PUni (makePrintable E s) | _ \<Rightarrow> v)"

text \<open>One round of the loop over the extended descriptors.\<close>

definition ext_desc_step :: "externals \<Rightarrow> pydict \<Rightarrow> field \<Rightarrow> error + pydict" where
  "ext_desc_step E data desc =
     then_do (getfield desc [Name ''type'']) (\<lambda>t.
       if py_eq (fvalue t) (TYPE_BYTE_ARRAY E) then Inr data
       else
         then_do (getfield desc [Name ''name'']) (\<lambda>n.
           if (case py_text (fvalue n) of None \<Rightarrow> False | Some k \<Rightarrow> k \<in> set SKIP_EXT_DESC)
           then Inr data
           else
             then_do (getfield desc [Name ''value'']) (\<lambda>vf.
               let val = printable_value E (fvalue vf)
               in case py_text (fvalue n) of
                    None \<Rightarrow> Inl TypeError
                  | Some k \<Rightarrow>
                      if \<not> py_truth val then Inr data
                      else Inr (dict_set data (strip_prefix k) (is_str (fvalue n)) val))))"

text \<open>
  The loop that stores what is left of \<^verbatim>\<open>data\<close>: the body computes the attribute and
  the value of one item, and sets it.
\<close>

definition store_target :: "externals \<Rightarrow> string \<times> bool \<times> pyval \<Rightarrow> attr \<times> pyval" where
  "store_target E item =
     (case item of (key, key_is_str, val) \<Rightarrow>
        (case EXT_DESC_TO_ATTR key of
           Some a \<Rightarrow> (a, val)
         | None \<Rightarrow>
             (comment,
              PUni ((if key_is_str then makePrintable E key else key) @ ''='' @ py_str E val))))"

definition store_item ::
  "externals \<Rightarrow> multiple_metadata \<Rightarrow> string \<times> bool \<times> pyval \<Rightarrow> multiple_metadata" where
  "store_item E self item = set_self self (fst (store_target E item)) (snd (store_target E item))"

text \<open>
  The block guarded by \<^verbatim>\<open>"ext_desc/content" in header\<close>, for the descriptors that
  \<^verbatim>\<open>header.array("ext_desc/content/descriptor")\<close> yields.  The result is the record and
  the flag \<^verbatim>\<open>is_vbr\<close> (\<open>None\<close> when unknown).
\<close>

definition process_ext_desc ::
  "externals \<Rightarrow> multiple_metadata \<Rightarrow> field list \<Rightarrow> error + multiple_metadata \<times> bool option" where
  "process_ext_desc E self descs =
     then_do (for_each (ext_desc_step E) [] descs) (\<lambda>data.
       let (self, data) =
             (if dict_has data ''ToolName'' \<and> dict_has data ''ToolVersion'' then
                (set_self self producer
                   (py_format2 E (dict_value data ''ToolName'') '' (version ''
                      (dict_value data ''ToolVersion'') '')''),
                 dict_del (dict_del data ''ToolName'') ''ToolVersion'')
              else (self, data));
           (is_vbr, data) =
             (if dict_has data ''IsVBR'' then
                (Some (py_eq (dict_value data ''IsVBR'') (PInt 1)), dict_del data ''IsVBR'')
              else (None, data))
       in Inr (fold (\<lambda>item self. store_item E self item) data self, is_vbr))"

definition ext_desc_phase ::
  "externals \<Rightarrow> multiple_metadata \<Rightarrow> field \<Rightarrow> error + multiple_metadata \<times> bool option" where
  "ext_desc_phase E self header =
     (case lookup header [Name ''ext_desc'', Name ''content''] of
        None \<Rightarrow> Inr (self, None)
      | Some content \<Rightarrow> process_ext_desc E self (array content ''descriptor''))"

definition bit_rate_text :: "bool option \<Rightarrow> string \<Rightarrow> string" where
  "bit_rate_text is_vbr text =
     (if is_vbr = Some True then ''VBR ('' @ text @ '' max)''
      else if is_vbr = Some False then text @ '' (CBR)''
      else text @ '' (max)'')"

definition file_prop_phase ::
  "externals \<Rightarrow> multiple_metadata \<Rightarrow> field \<Rightarrow> bool option \<Rightarrow> error + multiple_metadata" where
  "file_prop_phase E self header is_vbr =
     (case lookup header [Name ''file_prop'', Name ''content''] of
        None \<Rightarrow> Inr self
      | Some prop \<Rightarrow>
          then_do (getfield prop [Name ''creation_date'']) (\<lambda>cd.
            let self = set_self self creation_date (fvalue cd)
            in then_do (getfield prop [Name ''play_duration'']) (\<lambda>pd.
                 then_do (durationWin64 E (fvalue pd)) (\<lambda>d.
                   let self = set_self self duration d
                   in then_do (getfield prop [Name ''seekable'']) (\<lambda>sk.
                        let self = (if field_truth E sk
                                    then set_self self comment (PUni ''Is seekable'')
                                    else self)
                        in then_do (getfield prop [Name ''max_bitrate'']) (\<lambda>mb.
                             Inr (set_self self bit_rate
                                    (PPair (fvalue mb)
                                       (PUni (bit_rate_text is_vbr (fdisplay mb)))))))))))"

text \<open>The list \<^verbatim>\<open>compression\<close> built from the codec list; nothing reads it afterwards.\<close>

definition codec_list :: "externals \<Rightarrow> field \<Rightarrow> pyval list" where
  "codec_list E header =
     (case lookup header [Name ''codec_list'', Name ''content''] of
        None \<Rightarrow> []
      | Some content \<Rightarrow>
          concat (map
            (\<lambda>codec.
               case lookup codec [Name ''name''] of
                 None \<Rightarrow> []
               | Some n \<Rightarrow>
                   (case lookup codec [Name ''desc''] of
                      None \<Rightarrow> [fvalue n]
                    | Some d \<Rightarrow>
                        if py_truth (fvalue d)
                        then [py_format2 E (fvalue n) '' ('' (fvalue d) '')'']
                        else [fvalue n]))
            (array content ''codec'')))"

definition streamProperty :: "field \<Rightarrow> nat \<Rightarrow> metadata" where
  "streamProperty header index =
     (case lookup header
             [Name ''bit_rates'', Name ''content'', Idx ''bit_rate'' index, Name ''avg_bitrate''] of
        None \<Rightarrow> Metadata
      | Some f \<Rightarrow> setAttribute Metadata bit_rate (fvalue f))"

text \<open>
  One round of the loop over \<^verbatim>\<open>header.array("stream_prop")\<close>; the state is the record,
  the index of \<^verbatim>\<open>enumerate\<close>, \<^verbatim>\<open>audio_index\<close> and \<^verbatim>\<open>video_index\<close>.
\<close>

definition stream_step ::
  "field \<Rightarrow> multiple_metadata \<times> nat \<times> nat \<times> nat \<Rightarrow> field
     \<Rightarrow> error + multiple_metadata \<times> nat \<times> nat \<times> nat" where
  "stream_step header st stream_prop =
     (case st of (self, index, audio_index, video_index) \<Rightarrow>
        (case lookup stream_prop [Name ''content'', Name ''audio_header''] of
           Some audio \<Rightarrow>
             let meta = streamProperty header index
             in then_do
                  (if has meta compression then Inr meta
                   else then_do (getfield audio [Name ''twocc'']) (\<lambda>f.
                          Inr (setAttribute meta compression (PUni (fdisplay f)))))
                  (\<lambda>meta.
                     then_do (getfield audio [Name ''sample_rate'']) (\<lambda>sr.
                       let meta = setAttribute meta sample_rate (fvalue sr)
                       in then_do (getfield audio [Name ''bits_per_sample'']) (\<lambda>bps.
                            let meta = setAttribute meta bits_per_sample (fvalue bps)
                            in Inr (addGroup self (''audio['' @ show_nat audio_index @ '']'') meta
                                      (Some (''Audio stream #'' @ show_nat audio_index)),
                                    Suc index, Suc audio_index, video_index))))
         | None \<Rightarrow>
             (case lookup stream_prop [Name ''content'', Name ''video_header''] of
                Some video \<Rightarrow>
                  let meta = streamProperty header index
                  in then_do (getfield video [Name ''width'']) (\<lambda>w.
                       let meta = setAttribute meta width (fvalue w)
                       in then_do (getfield video [Name ''height'']) (\<lambda>h.
                            let meta = setAttribute meta height (fvalue h)
                            in then_do
                                 (case lookup video [Name ''bmp_info''] of
                                    None \<Rightarrow> Inr meta
                                  | Some bmp_info \<Rightarrow>
                                      then_do
                                        (if has meta compression then Inr meta
                                         else then_do (getfield bmp_info [Name ''codec'']) (\<lambda>f.
                                                Inr (setAttribute meta compression
                                                       (PUni (fdisplay f)))))
                                        (\<lambda>meta.
                                           then_do (getfield bmp_info [Name ''bpp'']) (\<lambda>bpp.
                                             Inr (setAttribute meta bits_per_pixel (fvalue bpp)))))
                                 (\<lambda>meta.
                                    Inr (addGroup self (''video['' @ show_nat video_index @ '']'')
                                           meta
                                           (Some (''Video stream #'' @ show_nat video_index)),
                                         Suc index, audio_index, Suc video_index))))
              | None \<Rightarrow> Inr (self, Suc index, audio_index, video_index))))"

definition streams_phase :: "multiple_metadata \<Rightarrow> field \<Rightarrow> error + multiple_metadata" where
  "streams_phase self header =
     then_do (for_each (stream_step header) (self, 0, 1, 1) (array header ''stream_prop''))
       (\<lambda>st. Inr (fst st))"

text \<open>The last block: a missing field ends it and is caught.\<close>

definition metadata_phase :: "multiple_metadata \<Rightarrow> field \<Rightarrow> multiple_metadata" where
  "metadata_phase self header =
     (case lookup header [Name ''metadata'', Name ''content''] of
        None \<Rightarrow> self
      | Some info \<Rightarrow>
          (case lookup info [Name ''title''] of
             None \<Rightarrow> self
           | Some t \<Rightarrow>
               let self = set_self self title (fvalue t)
               in (case lookup info [Name ''author''] of
                     None \<Rightarrow> self
                   | Some a \<Rightarrow>
                       let self = set_self self author (fvalue a)
                       in (case lookup info [Name ''copyright''] of
                             None \<Rightarrow> self
                           | Some c \<Rightarrow> set_self self copyright (fvalue c)))))"

definition processHeader ::
  "externals \<Rightarrow> multiple_metadata \<Rightarrow> field \<Rightarrow> error + multiple_metadata" where
  "processHeader E self header =
     then_do (ext_desc_phase E self header) (\<lambda>(self, is_vbr).
       then_do (file_prop_phase E self header is_vbr) (\<lambda>self.
         let compression_list = codec_list E header
         in then_do (streams_phase self header) (\<lambda>self.
              Inr (metadata_phase self header))))"

definition AsfMetadata_extract ::
  "externals \<Rightarrow> multiple_metadata \<Rightarrow> field \<Rightarrow> error + multiple_metadata" where
  "AsfMetadata_extract E self asf =
     (case lookup asf [Name ''header'', Name ''content''] of
        None \<Rightarrow> Inr self
      | Some header \<Rightarrow> processHeader E self header)"

section \<open>Views of a result and example inputs\<close>

text \<open>The best value and the candidates of an attribute of the record an extraction returns.\<close>

definition result_get :: "error + multiple_metadata \<Rightarrow> attr \<Rightarrow> error + pyval option" where
  "result_get r k = (case r of Inl e \<Rightarrow> Inl e | Inr self \<Rightarrow> Inr (get (attrs self) k))"

definition result_candidates :: "error + multiple_metadata \<Rightarrow> attr \<Rightarrow> error + pyval list" where
  "result_candidates r k = (case r of Inl e \<Rightarrow> Inl e | Inr self \<Rightarrow> Inr (attrs self k))"

text \<open>A group without its index, and what a stream record holds.\<close>

definition group_body :: "group \<Rightarrow> string \<times> metadata \<times> string option" where
  "group_body g = (gname g, grecord g, gdescription g)"

definition stream_view :: "string \<times> metadata \<times> string option \<Rightarrow> string \<times> pyval list list" where
  "stream_view b =
     (fst b, map (fst (snd b))
        [title, language, compression, width, height, sample_rate, nb_channel])"

definition result_streams ::
  "error + multiple_metadata \<Rightarrow> error + (string \<times> pyval list list) list" where
  "result_streams r =
     (case r of
        Inl e \<Rightarrow> Inl e
      | Inr self \<Rightarrow> Inr (map stream_view (map group_body (groups self))))"

text \<open>What one track entry yields when it is extracted on its own, into an empty record.\<close>

definition track_alone :: "field \<Rightarrow> (string \<times> metadata \<times> string option) list" where
  "track_alone track =
     (case processTrack MultipleMetadata track of
        Inl e \<Rightarrow> []
      | Inr self \<Rightarrow> map group_body (groups self))"

definition plain_externals :: externals where
  "plain_externals =
     \<lparr>makePrintable = (\<lambda>s. s), durationWin64 = (\<lambda>v. Inr v), dateToDatetime = (\<lambda>v. v),
      getSampleRate = (\<lambda>f. Inr (PInt 44100)), TYPE_BYTE_ARRAY = PInt 1,
      field_truth = (\<lambda>f. True), str_other = (\<lambda>v. ''?''), format_1f = (\<lambda>r. ''?'')\<rparr>"

definition leaf :: "fieldname \<Rightarrow> pyval \<Rightarrow> field" where
  "leaf n v = MkField n v [] [] 0 []"

definition shown :: "fieldname \<Rightarrow> pyval \<Rightarrow> string \<Rightarrow> field" where
  "shown n v d = MkField n v d [] 0 []"

definition node :: "fieldname \<Rightarrow> field list \<Rightarrow> field" where
  "node n cs = MkField n PNone [] [] 0 cs"

definition empty_tree :: field where
  "empty_tree = node (Name ''root'') []"

definition info_5000 :: field where
  "info_5000 =
     node (Idx ''Info'' 0)
       [node (Name ''Duration'') [leaf (Name ''float'') (PFloat 5000)],
        node (Name ''TimecodeScale'') [leaf (Name ''unsigned'') (PInt 1000000)],
        node (Name ''WritingApp'') [leaf (Name ''unicode'') (PUni ''writer'')],
        node (Name ''MuxingApp'') [leaf (Name ''unicode'') (PUni ''muxer'')]]"



definition info_empty_muxer :: field where
  "info_empty_muxer =
     node (Idx ''Info'' 0)
       [node (Name ''WritingApp'') [leaf (Name ''unicode'') (PUni ''writer'')],
        node (Name ''MuxingApp'') [leaf (Name ''unicode'') (PUni [])]]"

definition segment_two_infos :: field where
  "segment_two_infos =
     node (Idx ''Segment'' 0)
       [node (Idx ''Info'' 0)
          [node (Name ''WritingApp'') [leaf (Name ''unicode'') (PUni ''a'')],
           node (Name ''MuxingApp'') [leaf (Name ''unicode'') (PUni ''m'')]],
        node (Idx ''Info'' 1)
          [node (Name ''WritingApp'') [leaf (Name ''unicode'') (PUni ''b'')],
           node (Name ''MuxingApp'') [leaf (Name ''unicode'') (PUni ''m'')]]]"

definition track_video_no_width :: field where
  "track_video_no_width =
     node (Idx ''TrackEntry'' 0)
       [node (Name ''TrackType'') [shown (Name ''enum'') (PInt 1) ''video''],
        node (Name ''Name'') [leaf (Name ''unicode'') (PUni ''main'')],
        node (Name ''CodecID'') [leaf (Name ''string'') (PStr ''V_X'')],
        node (Name ''Video'') []]"

definition track_audio_no_channels :: field where
  "track_audio_no_channels =
     node (Idx ''TrackEntry'' 1)
       [node (Name ''TrackType'') [shown (Name ''enum'') (PInt 2) ''audio''],
        node (Name ''Audio'')
          [node (Name ''SamplingFrequency'') [leaf (Name ''float'') (PFloat 44100)]],
        node (Name ''CodecID'') [leaf (Name ''string'') (PStr ''A_X'')]]"

definition track_audio_full :: field where
  "track_audio_full =
     node (Idx ''TrackEntry'' 2)
       [node (Name ''TrackType'') [shown (Name ''enum'') (PInt 2) ''audio''],
        node (Name ''Audio'')
          [node (Name ''SamplingFrequency'') [leaf (Name ''float'') (PFloat 48000)],
           node (Name ''Channels'') [leaf (Name ''unsigned'') (PInt 2)]],
        node (Name ''CodecID'') [leaf (Name ''string'') (PStr ''A_Y'')]]"

definition tracks_three :: field where
  "tracks_three =
     node (Idx ''Tracks'' 0) [track_video_no_width, track_audio_no_channels, track_audio_full]"

definition mov_no_movie :: field where
  "mov_no_movie = node (Name ''root'') [node (Idx ''atom'' 0) [leaf (Name ''size'') (PInt 8)]]"

definition flv_bare :: field where
  "flv_bare = MkField (Name ''root'') PNone [] ''FLV v1'' 0 []"

definition mkv_two_infos :: field where
  "mkv_two_infos = node (Name ''root'') [segment_two_infos]"

definition flv_audio_header :: "nat \<Rightarrow> field" where
  "flv_audio_header i =
     node (Idx ''audio'' i)
       [leaf (Name ''is_16bit'') (PBool True),
        shown (Name ''codec'') (PInt 2) ''MP3'',
        MkField (Name ''music_data'') PNone [] ''MPEG-1 Layer 3'' 0 [],
        leaf (Name ''is_stereo'') (PBool True)]"

definition flv_video_header :: "nat \<Rightarrow> field" where
  "flv_video_header i = node (Idx ''video'' i) [shown (Name ''codec'') (PInt 2) ''H.263'']"

definition flv_side_channel :: field where
  "flv_side_channel =
     node (Name ''metadata'')
       [node (Idx ''entry'' 0) [],
        node (Idx ''entry'' 1)
          [node (Idx ''item'' 0)
             [leaf (Name ''key'') (PStr ''duration''),
              leaf (Name ''value'') (PFloat 12.5)],
           node (Idx ''item'' 1)
             [leaf (Name ''key'') (PStr ''creator''),
              leaf (Name ''value'') (PStr ''tool'')]]]"

definition flv_with_duration :: field where
  "flv_with_duration =
     MkField (Name ''root'') PNone [] ''FLV v1'' 1000000
       [flv_audio_header 0, flv_video_header 0, flv_audio_header 1, flv_video_header 1,
        flv_side_channel]"


definition mov_header :: field where
  "mov_header =
     node (Name ''movie_hdr'')
       [leaf (Name ''duration'') (PInt 90000),
        leaf (Name ''time_scale'') (PInt 600),
        shown (Name ''creat_date'') (PDatetime 0) ''2007-01-01'',
        shown (Name ''lastmod_date'') (PDatetime 0) ''2007-01-02'',
        leaf (Name ''play_speed'') (PFloat 1),
        leaf (Name ''volume'') (PInt 255)]"

definition descriptor :: "nat \<Rightarrow> pyval \<Rightarrow> pyval \<Rightarrow> pyval \<Rightarrow> field" where
  "descriptor i ty key val =
     node (Idx ''descriptor'' i)
       [leaf (Name ''type'') ty, leaf (Name ''name'') key, leaf (Name ''value'') val]"

definition tool_descriptors :: "field list" where
  "tool_descriptors =
     [descriptor 0 (PInt 0) (PUni ''WM/ToolName'') (PUni ''X''),
      descriptor 1 (PInt 0) (PUni ''WM/ToolVersion'') (PUni ''1''),
      descriptor 2 (PInt 2) (PUni ''IsVBR'') (PInt 1),
      descriptor 3 (PInt 0) (PUni ''Foo'') (PUni ''Bar'')]"

definition binary_descriptor :: field where
  "binary_descriptor = descriptor 4 (PInt 1) (PUni ''Picture'') (PStr ''xyz'')"

definition skip_key_descriptor :: field where
  "skip_key_descriptor = descriptor 4 (PInt 0) (PUni ''WMFSDKVersion'') (PUni ''9'')"

definition empty_descriptor :: field where
  "empty_descriptor = descriptor 4 (PInt 0) (PUni ''Author'') (PStr [])"

definition asf_file_prop :: field where
  "asf_file_prop =
     node (Name ''file_prop'')
       [node (Name ''content'')
          [leaf (Name ''creation_date'') (PDatetime 0),
           leaf (Name ''play_duration'') (PDelta 3),
           leaf (Name ''seekable'') (PBool True),
           shown (Name ''max_bitrate'') (PInt 128000) ''128 Kbit/s'']]"

definition asf_header_vbr :: field where
  "asf_header_vbr =
     node (Name ''content'')
       [node (Name ''ext_desc'') [node (Name ''content'') tool_descriptors], asf_file_prop]"

definition asf_header_cbr :: field where
  "asf_header_cbr =
     node (Name ''content'')
       [node (Name ''ext_desc'')
          [node (Name ''content'') [descriptor 0 (PInt 2) (PUni ''IsVBR'') (PInt 0)]],
        asf_file_prop]"

definition asf_header_plain :: field where
  "asf_header_plain = node (Name ''content'') [asf_file_prop]"


text \<open>
  The spec's reading of a track whose field is missing, to compare with the bodies of the
  three \<^verbatim>\<open>try\<close> blocks: the reads of a track are made in order, each one that finds
  its field writes an attribute, and the first one that does not find it ends the
  extraction of the track, leaving the record as it is by then.
\<close>

fun spec_fill_until_missing :: "(attr \<times> pyval option) list \<Rightarrow> metadata \<Rightarrow> metadata" where
  "spec_fill_until_missing [] m = m"
| "spec_fill_until_missing ((k, None) # reads) m = m"
| "spec_fill_until_missing ((k, Some v) # reads) m =
     spec_fill_until_missing reads (setAttribute m k v)"

text \<open>The value a path leads to, if the field is there.\<close>

definition value_at :: "field \<Rightarrow> fieldname list \<Rightarrow> pyval option" where
  "value_at f path = map_option fvalue (lookup f path)"


definition track_video_plain :: field where
  "track_video_plain =
     node (Idx ''TrackEntry'' 0)
       [node (Name ''TrackType'') [shown (Name ''enum'') (PInt 1) ''video''],
        node (Name ''Name'') [leaf (Name ''unicode'') (PUni ''main'')]]"

definition track_audio_plain :: field where
  "track_audio_plain =
     node (Idx ''TrackEntry'' 0)
       [node (Name ''TrackType'') [shown (Name ''enum'') (PInt 2) ''audio''],
        node (Name ''CodecID'') [leaf (Name ''string'') (PStr ''A_X'')]]"

definition track_audio_no_frequency :: field where
  "track_audio_no_frequency =
     node (Idx ''TrackEntry'' 0)
       [node (Name ''TrackType'') [shown (Name ''enum'') (PInt 2) ''audio''],
        node (Name ''Language'') [shown (Name ''string'') (PStr ''fre'') ''French''],
        node (Name ''Audio'') [],
        node (Name ''CodecID'') [leaf (Name ''string'') (PStr ''A_X'')]]"

definition track_audio_bad_frequency :: field where
  "track_audio_bad_frequency =
     node (Idx ''TrackEntry'' 0)
       [node (Name ''TrackType'') [shown (Name ''enum'') (PInt 2) ''audio''],
        node (Name ''Audio'')
          [node (Name ''SamplingFrequency'') [leaf (Name ''float'') (PStr ''fast'')]]]"

definition track_subtitle :: field where
  "track_subtitle =
     node (Idx ''TrackEntry'' 0)
       [node (Name ''TrackType'') [shown (Name ''enum'') (PInt 17) ''subtitle''],
        node (Name ''Language'') [shown (Name ''string'') (PStr ''und'') ''Undetermined'']]"

definition track_untyped :: field where
  "track_untyped =
     node (Idx ''TrackEntry'' 0)
       [node (Name ''CodecID'') [leaf (Name ''string'') (PStr ''V_X'')]]"

definition track_buttons :: field where
  "track_buttons =
     node (Idx ''TrackEntry'' 0)
       [node (Name ''TrackType'') [shown (Name ''enum'') (PInt 18) ''buttons''],
        node (Name ''CodecID'') [leaf (Name ''string'') (PStr ''B_X'')]]"

section \<open>Facts about the record and about loops\<close>

lemma setAttribute_other: "k' \<noteq> k \<Longrightarrow> setAttribute m k v k' = m k'"
  by (simp add: setAttribute_def)

lemma setAttribute_same:
  "setAttribute m k v k = (if is_empty_value v \<or> v \<in> set (m k) then m k else m k @ [v])"
  by (simp add: setAttribute_def)

lemma attrs_set_self: "attrs (set_self self k v) = setAttribute (attrs self) k v"
  by (simp add: set_self_def)

lemma groups_set_self: "groups (set_self self k v) = groups self"
  by (simp add: set_self_def)

lemma attrs_addGroup: "attrs (addGroup self key m header) = attrs self"
  by (simp add: addGroup_def)

lemma for_each_invariant:
  assumes "for_each f s xs = Inr s'" and "P s"
    and "\<And>s x s'. P s \<Longrightarrow> f s x = Inr s' \<Longrightarrow> P s'"
  shows "P s'"
  using assms(1,2)
proof (induction xs arbitrary: s)
  case Nil
  then show ?case by simp
next
  case (Cons x xs)
  from Cons.prems(1) obtain s1 where s1: "f s x = Inr s1" "for_each f s1 xs = Inr s'"
    by (auto split: sum.splits)
  from assms(3)[OF Cons.prems(2) s1(1)] have "P s1" .
  with Cons.IH s1(2) show ?case by blast
qed

lemma for_each_append:
  "for_each f s (xs @ ys) = then_do (for_each f s xs) (\<lambda>s'. for_each f s' ys)"
  by (induction xs arbitrary: s) (auto simp: then_do_def split: sum.splits)

section \<open>Matroska: the Info block\<close>

lemma attrs_case_set_other:
  "k' \<noteq> k \<Longrightarrow>
   attrs (case opt of None \<Rightarrow> self | Some f \<Rightarrow> set_self self k (g f)) k' = attrs self k'"
  by (cases opt) (simp_all add: attrs_set_self setAttribute_other)

lemma groups_case_set:
  "groups (case opt of None \<Rightarrow> self | Some f \<Rightarrow> set_self self k (g f)) = groups self"
  by (cases opt) (simp_all add: groups_set_self)





text \<open>Facts that evaluate the example inputs.\<close>

lemmas eval_tree = lookup.simps leaf_def shown_def node_def child_def contains_def getfield_def then_do_def
lemmas eval_record = set_self_def setAttribute_def is_empty_value_def MultipleMetadata_def
  Metadata_def get_def has_def addGroup_def result_get_def result_candidates_def



lemma processInfo_producer_attr:
  assumes "processInfo E self info = Inr self'"
    and "lookup info [Name ''WritingApp'', Name ''unicode''] = Some w"
    and "lookup info [Name ''MuxingApp'', Name ''unicode''] = Some m"
  shows "attrs self' producer =
     setAttribute (setAttribute (attrs self) producer (fvalue w)) producer (fvalue m) producer"
proof (cases "info_duration info")
  case (Inl e)
  with assms(1) show ?thesis by (simp add: processInfo_def then_do_def)
next
  case (Inr dur)
  with assms show ?thesis
    by (auto simp: processInfo_def then_do_def Let_def attrs_case_set_other attrs_set_self
        setAttribute_same setAttribute_other)
qed

text \<open>
  Claim C4, amended.  For every Matroska Info block that holds both a writing-application
  and a muxing-application value, the producer the record returns is the muxing-application
  value, provided that value is not empty and is not already a producer candidate of the
  record (as in the first Info block of an extraction).  The record does not store an empty
  candidate and ignores a duplicate, so without the proviso the writing application, or an
  earlier value, stays the best one.
\<close>

theorem processInfo_producer_muxing:
  assumes "lookup info [Name ''WritingApp'', Name ''unicode''] = Some w"
    and "lookup info [Name ''MuxingApp'', Name ''unicode''] = Some m"
    and "\<not> is_empty_value (fvalue m)"
    and "fvalue m \<notin> set (attrs self producer)"
    and "processInfo E self info = Inr self'"
  shows "get (attrs self') producer = Some (fvalue m)"
  using assms(3,4) processInfo_producer_attr[OF assms(5) assms(1) assms(2)]
  by (auto simp: setAttribute_same get_def)

theorem processInfo_producer_muxing_witness:
  "lookup info_5000 [Name ''WritingApp'', Name ''unicode'']
     = Some (leaf (Name ''unicode'') (PUni ''writer''))
   \<and> lookup info_5000 [Name ''MuxingApp'', Name ''unicode'']
     = Some (leaf (Name ''unicode'') (PUni ''muxer''))
   \<and> \<not> is_empty_value (PUni ''muxer'')
   \<and> PUni ''muxer'' \<notin> set (attrs MultipleMetadata producer)
   \<and> result_get (processInfo plain_externals MultipleMetadata info_5000) producer
     = Inr (Some (PUni ''muxer''))"
proof -
  have w: "lookup info_5000 [Name ''WritingApp'', Name ''unicode'']
     = Some (leaf (Name ''unicode'') (PUni ''writer''))"
    and m: "lookup info_5000 [Name ''MuxingApp'', Name ''unicode'']
     = Some (leaf (Name ''unicode'') (PUni ''muxer''))"
    by (simp_all add: info_5000_def eval_tree)
  have ne: "\<not> is_empty_value (fvalue (leaf (Name ''unicode'') (PUni ''muxer'')))"
    and fresh: "fvalue (leaf (Name ''unicode'') (PUni ''muxer''))
       \<notin> set (attrs MultipleMetadata producer)"
    by (simp_all add: leaf_def is_empty_value_def MultipleMetadata_def Metadata_def)
  obtain s where s: "processInfo plain_externals MultipleMetadata info_5000 = Inr s"
    by (simp add: processInfo_def info_duration_def info_5000_def eval_tree)
  from processInfo_producer_muxing[OF w m ne fresh s]
  have "result_get (processInfo plain_externals MultipleMetadata info_5000) producer
     = Inr (Some (PUni ''muxer''))"
    using s by (simp add: result_get_def leaf_def)
  with w m ne fresh show ?thesis by (simp add: leaf_def)
qed

text \<open>
  Claim C4 as stated fails: with an empty muxing-application value the producer is the
  writing application, and in a second Info block whose muxing application was already
  recorded by the first one the producer is the second writing application.
\<close>

theorem processInfo_producer_counterexample:
  "lookup info_empty_muxer [Name ''WritingApp'', Name ''unicode'']
     = Some (leaf (Name ''unicode'') (PUni ''writer''))
   \<and> lookup info_empty_muxer [Name ''MuxingApp'', Name ''unicode'']
     = Some (leaf (Name ''unicode'') (PUni []))
   \<and> result_get (processInfo plain_externals MultipleMetadata info_empty_muxer) producer
     = Inr (Some (PUni ''writer''))
   \<and> lookup segment_two_infos [Idx ''Info'' 1, Name ''WritingApp'', Name ''unicode'']
     = Some (leaf (Name ''unicode'') (PUni ''b''))
   \<and> lookup segment_two_infos [Idx ''Info'' 1, Name ''MuxingApp'', Name ''unicode'']
     = Some (leaf (Name ''unicode'') (PUni ''m''))
   \<and> result_get (processSegment plain_externals MultipleMetadata segment_two_infos) producer
     = Inr (Some (PUni ''b''))"
  by (simp add: info_empty_muxer_def segment_two_infos_def processSegment_def
      processSegment_field_def processInfo_def info_duration_def eval_tree eval_record)

section \<open>Matroska: tracks\<close>

lemma py_int_error: "py_int v = Inl e \<Longrightarrow> e = TypeError"
  by (cases v) auto

lemma audio_body_error: "audio_body track m = Inl e \<Longrightarrow> e = TypeError"
  by (auto simp: audio_body_def then_do_def Let_def dest: py_int_error
      split: if_splits option.splits sum.splits)

lemma group_body_addGroup:
  "map group_body (groups (addGroup self key m header))
     = map group_body (groups self) @ [(key, m, header)]"
  by (simp add: addGroup_def group_body_def)

lemma processTrack_error: "processTrack self track = Inl e \<Longrightarrow> e = TypeError"
  by (auto simp: processTrack_def processAudio_def then_do_def dest: audio_body_error
      split: option.splits if_splits sum.splits)

lemma processTrack_alone:
  assumes "processTrack self track = Inr self'"
  shows "attrs self' = attrs self
     \<and> map group_body (groups self') = map group_body (groups self) @ track_alone track"
proof (cases "lookup track [Name ''TrackType'', Name ''enum'']")
  case None
  with assms show ?thesis
    by (simp add: processTrack_def track_alone_def MultipleMetadata_def)
next
  case (Some t)
  consider (video) "fdisplay t = ''video''"
    | (audio) "fdisplay t \<noteq> ''video''" "fdisplay t = ''audio''"
    | (subtitle) "fdisplay t \<noteq> ''video''" "fdisplay t \<noteq> ''audio''" "fdisplay t = ''subtitle''"
    | (other) "fdisplay t \<noteq> ''video''" "fdisplay t \<noteq> ''audio''" "fdisplay t \<noteq> ''subtitle''"
    by blast
  then show ?thesis
  proof cases
    case video
    with assms Some show ?thesis
      by (auto simp: processTrack_def track_alone_def processVideo_def group_body_addGroup
          attrs_addGroup MultipleMetadata_def)
  next
    case audio
    with assms Some obtain m where m: "audio_body track Metadata = Inr m"
      and s: "self' = addGroup self ''audio[]'' m (Some ''Audio stream'')"
      by (auto simp: processTrack_def processAudio_def then_do_def split: sum.splits)
    from audio Some m have "track_alone track = [(''audio[]'', m, Some ''Audio stream'')]"
      by (simp add: track_alone_def processTrack_def processAudio_def then_do_def
          group_body_addGroup MultipleMetadata_def)
    with s show ?thesis by (simp add: group_body_addGroup attrs_addGroup)
  next
    case subtitle
    with assms Some show ?thesis
      by (auto simp: processTrack_def track_alone_def processSubtitle_def group_body_addGroup
          attrs_addGroup MultipleMetadata_def)
  next
    case other
    with assms Some show ?thesis
      by (simp add: processTrack_def track_alone_def MultipleMetadata_def)
  qed
qed

lemma for_each_processTrack_error:
  "for_each processTrack self es = Inl e \<Longrightarrow> e = TypeError"
  by (induction es arbitrary: self) (auto dest: processTrack_error split: sum.splits)

lemma for_each_processTrack_alone:
  "for_each processTrack self es = Inr self' \<Longrightarrow>
     attrs self' = attrs self
     \<and> map group_body (groups self')
         = map group_body (groups self) @ concat (map track_alone es)"
proof (induction es arbitrary: self)
  case Nil
  then show ?case by simp
next
  case (Cons e es)
  from Cons.prems obtain s1 where s1: "processTrack self e = Inr s1"
    and rest: "for_each processTrack s1 es = Inr self'"
    by (auto split: sum.splits)
  from processTrack_alone[OF s1] Cons.IH[OF rest] show ?case by simp
qed

text \<open>
  The bodies of the three \<^verbatim>\<open>try\<close> blocks and \<open>trackCommon\<close>, compared with the
  spec's reading of a missing field.
\<close>

lemma spec_fill_value_at_1:
  "spec_fill_until_missing [(k, value_at f p)] m
     = (case lookup f p of None \<Rightarrow> m | Some c \<Rightarrow> setAttribute m k (fvalue c))"
  by (simp add: value_at_def split: option.splits)

lemma video_body_spec:
  "video_body track m
     = (if contains track [Name ''Video''] then
          spec_fill_until_missing
            [(compression, value_at track [Name ''CodecID'', Name ''string'']),
             (width, value_at track [Name ''Video'', Name ''PixelWidth'', Name ''unsigned'']),
             (height, value_at track [Name ''Video'', Name ''PixelHeight'', Name ''unsigned''])]
            (trackCommon track m)
        else
          spec_fill_until_missing
            [(compression, value_at track [Name ''CodecID'', Name ''string''])]
            (trackCommon track m))"
  by (simp add: video_body_def Let_def value_at_def split: option.splits)

lemma subtitle_body_spec:
  "subtitle_body track m
     = spec_fill_until_missing
         [(compression, value_at track [Name ''CodecID'', Name ''string''])]
         (trackCommon track m)"
  by (simp add: subtitle_body_def Let_def value_at_def split: option.splits)

lemma audio_body_spec:
  "audio_body track m
     = (if contains track [Name ''Audio''] then
          (case lookup track [Name ''Audio'', Name ''SamplingFrequency'', Name ''float''] of
             None \<Rightarrow> Inr (trackCommon track m)
           | Some f \<Rightarrow>
               (case py_int (fvalue f) of
                  Inl e \<Rightarrow> Inl TypeError
                | Inr n \<Rightarrow>
                    Inr (spec_fill_until_missing
                           [(nb_channel,
                             value_at track [Name ''Audio'', Name ''Channels'', Name ''unsigned'']),
                            (compression, value_at track [Name ''CodecID'', Name ''string''])]
                           (setAttribute (trackCommon track m) sample_rate (PInt n)))))
        else
          Inr (spec_fill_until_missing
                 [(compression, value_at track [Name ''CodecID'', Name ''string''])]
                 (trackCommon track m)))"
  by (auto simp: audio_body_def audio_codec_def Let_def value_at_def then_do_def
      dest: py_int_error split: option.splits sum.splits)

lemma trackCommon_spec:
  "trackCommon track m
        = (let m1 = spec_fill_until_missing
                      [(title, value_at track [Name ''Name'', Name ''unicode''])] m
           in case lookup track [Name ''Language'', Name ''string''] of
                None \<Rightarrow> m1
              | Some l \<Rightarrow>
                  if py_text (fvalue l) = Some ''mis'' \<or> py_text (fvalue l) = Some ''und''
                  then m1
                  else setAttribute m1 language (PUni (fdisplay l)))"
  by (simp add: trackCommon_def Let_def value_at_def split: option.splits)

text \<open>
  Claim C5.  A field found missing while a Matroska track is extracted never leaves the
  track.  The loop over the track entries cannot end in MissingField, and a finished loop
  leaves the attributes of the file's record untouched and appends, for every entry in
  source order, exactly the groups that entry yields on its own.  What one entry yields is
  fixed for every kind of track and every missing field: a video, audio or subtitle track
  always appends one record to its group, and that record is the one the spec describes,
  filled by the reads of the track in order up to the first field that is missing (for an
  audio track whose sampling frequency is present, the frequency must be a number:
  otherwise \<^verbatim>\<open>int\<close> raises an error that is not MissingField and is not caught).
  A track of another type, or without a type, appends nothing.
\<close>

theorem track_missing_field_is_local:
  "(processTracks self tracks \<noteq> Inl MissingField)
   \<and> (processTracks self tracks = Inr self'
      \<longrightarrow> attrs self' = attrs self
        \<and> map group_body (groups self')
            = map group_body (groups self)
                @ concat (map track_alone (array tracks ''TrackEntry'')))
   \<and> (lookup track [Name ''TrackType'', Name ''enum''] = Some t \<and> fdisplay t = ''video''
        \<and> lookup track [Name ''CodecID'', Name ''string''] = Some c
        \<and> contains track [Name ''Video'']
        \<and> lookup track [Name ''Video'', Name ''PixelWidth'', Name ''unsigned''] = None
      \<longrightarrow> track_alone track
          = [(''video[]'', setAttribute (trackCommon track Metadata) compression (fvalue c),
              Some ''Video stream'')])
   \<and> (lookup track [Name ''TrackType'', Name ''enum''] = Some t \<and> fdisplay t = ''audio''
        \<and> contains track [Name ''Audio'']
        \<and> lookup track [Name ''Audio'', Name ''SamplingFrequency'', Name ''float''] = Some f
        \<and> py_int (fvalue f) = Inr n
        \<and> lookup track [Name ''Audio'', Name ''Channels'', Name ''unsigned''] = None
      \<longrightarrow> track_alone track
          = [(''audio[]'', setAttribute (trackCommon track Metadata) sample_rate (PInt n),
              Some ''Audio stream'')])
   \<and> (lookup track [Name ''TrackType'', Name ''enum''] = Some t \<and> fdisplay t = ''video''
        \<and> \<not> contains track [Name ''Video'']
      \<longrightarrow> processTrack self track
          = Inr (addGroup self ''video[]''
                   (spec_fill_until_missing [(compression, value_at track [Name ''CodecID'', Name ''string''])] (trackCommon track Metadata))
                   (Some ''Video stream'')))
   \<and> (lookup track [Name ''TrackType'', Name ''enum''] = Some t \<and> fdisplay t = ''video''
        \<and> contains track [Name ''Video'']
      \<longrightarrow> processTrack self track
          = Inr (addGroup self ''video[]''
                   (spec_fill_until_missing
                      [(compression, value_at track [Name ''CodecID'', Name ''string'']),
                       (width, value_at track [Name ''Video'', Name ''PixelWidth'', Name ''unsigned'']),
                       (height, value_at track [Name ''Video'', Name ''PixelHeight'', Name ''unsigned''])]
                      (trackCommon track Metadata))
                   (Some ''Video stream'')))
   \<and> (lookup track [Name ''TrackType'', Name ''enum''] = Some t \<and> fdisplay t = ''audio''
        \<and> \<not> contains track [Name ''Audio'']
      \<longrightarrow> processTrack self track
          = Inr (addGroup self ''audio[]''
                   (spec_fill_until_missing [(compression, value_at track [Name ''CodecID'', Name ''string''])] (trackCommon track Metadata))
                   (Some ''Audio stream'')))
   \<and> (lookup track [Name ''TrackType'', Name ''enum''] = Some t \<and> fdisplay t = ''audio''
        \<and> contains track [Name ''Audio'']
        \<and> lookup track [Name ''Audio'', Name ''SamplingFrequency'', Name ''float''] = None
      \<longrightarrow> processTrack self track
          = Inr (addGroup self ''audio[]'' (trackCommon track Metadata) (Some ''Audio stream'')))
   \<and> (lookup track [Name ''TrackType'', Name ''enum''] = Some t \<and> fdisplay t = ''audio''
        \<and> contains track [Name ''Audio'']
        \<and> lookup track [Name ''Audio'', Name ''SamplingFrequency'', Name ''float''] = Some f
        \<and> py_int (fvalue f) = Inr n
      \<longrightarrow> processTrack self track
          = Inr (addGroup self ''audio[]''
                   (spec_fill_until_missing
                      [(nb_channel, value_at track [Name ''Audio'', Name ''Channels'', Name ''unsigned'']),
                       (compression, value_at track [Name ''CodecID'', Name ''string''])]
                      (setAttribute (trackCommon track Metadata) sample_rate (PInt n)))
                   (Some ''Audio stream'')))
   \<and> (lookup track [Name ''TrackType'', Name ''enum''] = Some t \<and> fdisplay t = ''audio''
        \<and> contains track [Name ''Audio'']
        \<and> lookup track [Name ''Audio'', Name ''SamplingFrequency'', Name ''float''] = Some f
        \<and> py_int (fvalue f) = Inl e
      \<longrightarrow> processTrack self track = Inl TypeError)
   \<and> (lookup track [Name ''TrackType'', Name ''enum''] = Some t \<and> fdisplay t = ''subtitle''
      \<longrightarrow> processTrack self track
          = Inr (addGroup self ''subtitle[]''
                   (spec_fill_until_missing [(compression, value_at track [Name ''CodecID'', Name ''string''])] (trackCommon track Metadata))
                   (Some ''Subtitle'')))
   \<and> (lookup track [Name ''TrackType'', Name ''enum''] = None
      \<longrightarrow> processTrack self track = Inr self)
   \<and> (lookup track [Name ''TrackType'', Name ''enum''] = Some t \<and> fdisplay t \<noteq> ''video''
        \<and> fdisplay t \<noteq> ''audio'' \<and> fdisplay t \<noteq> ''subtitle''
      \<longrightarrow> processTrack self track = Inr self)
   \<and> (trackCommon track m
        = (let m1 = spec_fill_until_missing
                      [(title, value_at track [Name ''Name'', Name ''unicode''])] m
           in case lookup track [Name ''Language'', Name ''string''] of
                None \<Rightarrow> m1
              | Some l \<Rightarrow>
                  if py_text (fvalue l) = Some ''mis'' \<or> py_text (fvalue l) = Some ''und''
                  then m1
                  else setAttribute m1 language (PUni (fdisplay l))))"
proof -
  have nomissing: "processTracks self tracks \<noteq> Inl MissingField"
    using for_each_processTrack_error[of self "array tracks ''TrackEntry''" MissingField]
    by (auto simp: processTracks_def)
  have loop: "processTracks self tracks = Inr self'
      \<longrightarrow> attrs self' = attrs self
        \<and> map group_body (groups self')
            = map group_body (groups self)
                @ concat (map track_alone (array tracks ''TrackEntry''))"
  proof
    assume "processTracks self tracks = Inr self'"
    then have ok: "for_each processTrack self (array tracks ''TrackEntry'') = Inr self'"
      by (simp add: processTracks_def)
    from for_each_processTrack_alone[OF ok]
    show "attrs self' = attrs self
        \<and> map group_body (groups self')
            = map group_body (groups self)
                @ concat (map track_alone (array tracks ''TrackEntry''))" .
  qed
  have oldvideo: "lookup track [Name ''TrackType'', Name ''enum''] = Some t \<and> fdisplay t = ''video''
        \<and> lookup track [Name ''CodecID'', Name ''string''] = Some c
        \<and> contains track [Name ''Video'']
        \<and> lookup track [Name ''Video'', Name ''PixelWidth'', Name ''unsigned''] = None
      \<longrightarrow> track_alone track
          = [(''video[]'', setAttribute (trackCommon track Metadata) compression (fvalue c),
              Some ''Video stream'')]"
    by (simp add: track_alone_def processTrack_def processVideo_def video_body_def Let_def
        group_body_addGroup MultipleMetadata_def)
  have oldaudio: "lookup track [Name ''TrackType'', Name ''enum''] = Some t \<and> fdisplay t = ''audio''
        \<and> contains track [Name ''Audio'']
        \<and> lookup track [Name ''Audio'', Name ''SamplingFrequency'', Name ''float''] = Some f
        \<and> py_int (fvalue f) = Inr n
        \<and> lookup track [Name ''Audio'', Name ''Channels'', Name ''unsigned''] = None
      \<longrightarrow> track_alone track
          = [(''audio[]'', setAttribute (trackCommon track Metadata) sample_rate (PInt n),
              Some ''Audio stream'')]"
    by (simp add: track_alone_def processTrack_def processAudio_def audio_body_def Let_def
        then_do_def group_body_addGroup MultipleMetadata_def)
  have v1: "lookup track [Name ''TrackType'', Name ''enum''] = Some t \<and> fdisplay t = ''video''
        \<and> \<not> contains track [Name ''Video'']
      \<longrightarrow> processTrack self track
          = Inr (addGroup self ''video[]''
                   (spec_fill_until_missing [(compression, value_at track [Name ''CodecID'', Name ''string''])] (trackCommon track Metadata))
                   (Some ''Video stream''))"
    by (simp add: processTrack_def processVideo_def video_body_spec)
  have v2: "lookup track [Name ''TrackType'', Name ''enum''] = Some t \<and> fdisplay t = ''video''
        \<and> contains track [Name ''Video'']
      \<longrightarrow> processTrack self track
          = Inr (addGroup self ''video[]''
                   (spec_fill_until_missing
                      [(compression, value_at track [Name ''CodecID'', Name ''string'']),
                       (width, value_at track [Name ''Video'', Name ''PixelWidth'', Name ''unsigned'']),
                       (height, value_at track [Name ''Video'', Name ''PixelHeight'', Name ''unsigned''])]
                      (trackCommon track Metadata))
                   (Some ''Video stream''))"
    by (simp add: processTrack_def processVideo_def video_body_spec)
  have a1: "lookup track [Name ''TrackType'', Name ''enum''] = Some t \<and> fdisplay t = ''audio''
        \<and> \<not> contains track [Name ''Audio'']
      \<longrightarrow> processTrack self track
          = Inr (addGroup self ''audio[]''
                   (spec_fill_until_missing [(compression, value_at track [Name ''CodecID'', Name ''string''])] (trackCommon track Metadata))
                   (Some ''Audio stream''))"
    by (simp add: processTrack_def processAudio_def audio_body_spec then_do_def)
  have a2: "lookup track [Name ''TrackType'', Name ''enum''] = Some t \<and> fdisplay t = ''audio''
        \<and> contains track [Name ''Audio'']
        \<and> lookup track [Name ''Audio'', Name ''SamplingFrequency'', Name ''float''] = None
      \<longrightarrow> processTrack self track
          = Inr (addGroup self ''audio[]'' (trackCommon track Metadata) (Some ''Audio stream''))"
    by (simp add: processTrack_def processAudio_def audio_body_spec then_do_def)
  have a3: "lookup track [Name ''TrackType'', Name ''enum''] = Some t \<and> fdisplay t = ''audio''
        \<and> contains track [Name ''Audio'']
        \<and> lookup track [Name ''Audio'', Name ''SamplingFrequency'', Name ''float''] = Some f
        \<and> py_int (fvalue f) = Inr n
      \<longrightarrow> processTrack self track
          = Inr (addGroup self ''audio[]''
                   (spec_fill_until_missing
                      [(nb_channel, value_at track [Name ''Audio'', Name ''Channels'', Name ''unsigned'']),
                       (compression, value_at track [Name ''CodecID'', Name ''string''])]
                      (setAttribute (trackCommon track Metadata) sample_rate (PInt n)))
                   (Some ''Audio stream''))"
    by (simp add: processTrack_def processAudio_def audio_body_spec then_do_def)
  have a4: "lookup track [Name ''TrackType'', Name ''enum''] = Some t \<and> fdisplay t = ''audio''
        \<and> contains track [Name ''Audio'']
        \<and> lookup track [Name ''Audio'', Name ''SamplingFrequency'', Name ''float''] = Some f
        \<and> py_int (fvalue f) = Inl e
      \<longrightarrow> processTrack self track = Inl TypeError"
    by (simp add: processTrack_def processAudio_def audio_body_spec then_do_def)
  have s1: "lookup track [Name ''TrackType'', Name ''enum''] = Some t \<and> fdisplay t = ''subtitle''
      \<longrightarrow> processTrack self track
          = Inr (addGroup self ''subtitle[]''
                   (spec_fill_until_missing [(compression, value_at track [Name ''CodecID'', Name ''string''])] (trackCommon track Metadata))
                   (Some ''Subtitle''))"
    by (simp add: processTrack_def processSubtitle_def subtitle_body_spec)
  have u1: "lookup track [Name ''TrackType'', Name ''enum''] = None
      \<longrightarrow> processTrack self track = Inr self"
    by (simp add: processTrack_def)
  have u2: "lookup track [Name ''TrackType'', Name ''enum''] = Some t \<and> fdisplay t \<noteq> ''video''
        \<and> fdisplay t \<noteq> ''audio'' \<and> fdisplay t \<noteq> ''subtitle''
      \<longrightarrow> processTrack self track = Inr self"
    by (simp add: processTrack_def)
  have common: "trackCommon track m
        = (let m1 = spec_fill_until_missing
                      [(title, value_at track [Name ''Name'', Name ''unicode''])] m
           in case lookup track [Name ''Language'', Name ''string''] of
                None \<Rightarrow> m1
              | Some l \<Rightarrow>
                  if py_text (fvalue l) = Some ''mis'' \<or> py_text (fvalue l) = Some ''und''
                  then m1
                  else setAttribute m1 language (PUni (fdisplay l)))"
    by (rule trackCommon_spec)
  show ?thesis
    by (intro conjI) (rule nomissing loop oldvideo oldaudio v1 v2 a1 a2 a3 a4 s1 u1 u2 common)+
qed

theorem track_missing_field_is_local_witness:
  "processTracks MultipleMetadata tracks_three \<noteq> Inl MissingField
   \<and> result_streams (processTracks MultipleMetadata tracks_three)
     = Inr [(''video[]'', [[PUni ''main''], [], [PStr ''V_X''], [], [], [], []]),
            (''audio[]'', [[], [], [], [], [], [PInt 44100], []]),
            (''audio[]'', [[], [], [PStr ''A_Y''], [], [], [PInt 48000], [PInt 2]])]
   \<and> (lookup track_video_no_width [Name ''TrackType'', Name ''enum'']
          = Some (shown (Name ''enum'') (PInt 1) ''video'')
        \<and> lookup track_video_no_width [Name ''CodecID'', Name ''string'']
          = Some (leaf (Name ''string'') (PStr ''V_X''))
        \<and> contains track_video_no_width [Name ''Video'']
        \<and> lookup track_video_no_width [Name ''Video'', Name ''PixelWidth'', Name ''unsigned'']
          = None)
   \<and> map stream_view (track_alone track_video_no_width)
     = [(''video[]'', [[PUni ''main''], [], [PStr ''V_X''], [], [], [], []])]
   \<and> (lookup track_audio_no_channels [Name ''TrackType'', Name ''enum'']
          = Some (shown (Name ''enum'') (PInt 2) ''audio'')
        \<and> contains track_audio_no_channels [Name ''Audio'']
        \<and> lookup track_audio_no_channels [Name ''Audio'', Name ''SamplingFrequency'', Name ''float'']
          = Some (leaf (Name ''float'') (PFloat 44100))
        \<and> py_int (PFloat 44100) = Inr 44100
        \<and> lookup track_audio_no_channels [Name ''Audio'', Name ''Channels'', Name ''unsigned'']
          = None)
   \<and> map stream_view (track_alone track_audio_no_channels)
     = [(''audio[]'', [[], [], [], [], [], [PInt 44100], []])]
   \<and> (lookup track_video_plain [Name ''TrackType'', Name ''enum''] = Some (shown (Name ''enum'') (PInt 1) ''video'')
      \<and> fdisplay (shown (Name ''enum'') (PInt 1) ''video'') = ''video''
      \<and> \<not> contains track_video_plain [Name ''Video''])
   \<and> result_streams (processTrack MultipleMetadata track_video_plain)
      = Inr [(''video[]'', [[PUni ''main''], [], [], [], [], [], []])]
   \<and> (lookup track_video_no_width [Name ''TrackType'', Name ''enum''] = Some (shown (Name ''enum'') (PInt 1) ''video'')
      \<and> fdisplay (shown (Name ''enum'') (PInt 1) ''video'') = ''video''
      \<and> contains track_video_no_width [Name ''Video''])
   \<and> result_streams (processTrack MultipleMetadata track_video_no_width)
      = Inr [(''video[]'', [[PUni ''main''], [], [PStr ''V_X''], [], [], [], []])]
   \<and> (lookup track_audio_plain [Name ''TrackType'', Name ''enum''] = Some (shown (Name ''enum'') (PInt 2) ''audio'')
      \<and> fdisplay (shown (Name ''enum'') (PInt 2) ''audio'') = ''audio''
      \<and> \<not> contains track_audio_plain [Name ''Audio''])
   \<and> result_streams (processTrack MultipleMetadata track_audio_plain)
      = Inr [(''audio[]'', [[], [], [PStr ''A_X''], [], [], [], []])]
   \<and> (lookup track_audio_no_frequency [Name ''TrackType'', Name ''enum''] = Some (shown (Name ''enum'') (PInt 2) ''audio'')
      \<and> fdisplay (shown (Name ''enum'') (PInt 2) ''audio'') = ''audio''
      \<and> contains track_audio_no_frequency [Name ''Audio'']
      \<and> lookup track_audio_no_frequency
            [Name ''Audio'', Name ''SamplingFrequency'', Name ''float''] = None)
   \<and> result_streams (processTrack MultipleMetadata track_audio_no_frequency)
      = Inr [(''audio[]'', [[], [PUni ''French''], [], [], [], [], []])]
   \<and> (lookup track_audio_full [Name ''TrackType'', Name ''enum''] = Some (shown (Name ''enum'') (PInt 2) ''audio'')
      \<and> fdisplay (shown (Name ''enum'') (PInt 2) ''audio'') = ''audio''
      \<and> contains track_audio_full [Name ''Audio'']
      \<and> lookup track_audio_full [Name ''Audio'', Name ''SamplingFrequency'', Name ''float'']
          = Some (leaf (Name ''float'') (PFloat 48000))
      \<and> py_int (fvalue (leaf (Name ''float'') (PFloat 48000))) = Inr 48000)
   \<and> result_streams (processTrack MultipleMetadata track_audio_full)
      = Inr [(''audio[]'', [[], [], [PStr ''A_Y''], [], [], [PInt 48000], [PInt 2]])]
   \<and> (lookup track_audio_bad_frequency [Name ''TrackType'', Name ''enum''] = Some (shown (Name ''enum'') (PInt 2) ''audio'')
      \<and> fdisplay (shown (Name ''enum'') (PInt 2) ''audio'') = ''audio''
      \<and> contains track_audio_bad_frequency [Name ''Audio'']
      \<and> lookup track_audio_bad_frequency
            [Name ''Audio'', Name ''SamplingFrequency'', Name ''float'']
          = Some (leaf (Name ''float'') (PStr ''fast''))
      \<and> py_int (fvalue (leaf (Name ''float'') (PStr ''fast''))) = Inl TypeError)
   \<and> processTrack MultipleMetadata track_audio_bad_frequency = Inl TypeError
   \<and> (lookup track_subtitle [Name ''TrackType'', Name ''enum''] = Some (shown (Name ''enum'') (PInt 17) ''subtitle'')
      \<and> fdisplay (shown (Name ''enum'') (PInt 17) ''subtitle'') = ''subtitle'')
   \<and> result_streams (processTrack MultipleMetadata track_subtitle)
      = Inr [(''subtitle[]'', [[], [], [], [], [], [], []])]
   \<and> (lookup track_untyped [Name ''TrackType'', Name ''enum''] = None)
   \<and> result_streams (processTrack MultipleMetadata track_untyped) = Inr []
   \<and> (lookup track_buttons [Name ''TrackType'', Name ''enum''] = Some (shown (Name ''enum'') (PInt 18) ''buttons'')
      \<and> fdisplay (shown (Name ''enum'') (PInt 18) ''buttons'') \<noteq> ''video''
      \<and> fdisplay (shown (Name ''enum'') (PInt 18) ''buttons'') \<noteq> ''audio''
      \<and> fdisplay (shown (Name ''enum'') (PInt 18) ''buttons'') \<noteq> ''subtitle'')
   \<and> result_streams (processTrack MultipleMetadata track_buttons) = Inr []"
proof -
  note main = track_missing_field_is_local
  have hv: "lookup track_video_no_width [Name ''TrackType'', Name ''enum'']
          = Some (shown (Name ''enum'') (PInt 1) ''video'')
        \<and> fdisplay (shown (Name ''enum'') (PInt 1) ''video'') = ''video''
        \<and> lookup track_video_no_width [Name ''CodecID'', Name ''string'']
          = Some (leaf (Name ''string'') (PStr ''V_X''))
        \<and> contains track_video_no_width [Name ''Video'']
        \<and> lookup track_video_no_width [Name ''Video'', Name ''PixelWidth'', Name ''unsigned'']
          = None"
    by (simp add: track_video_no_width_def eval_tree)
  have ha: "lookup track_audio_no_channels [Name ''TrackType'', Name ''enum'']
          = Some (shown (Name ''enum'') (PInt 2) ''audio'')
        \<and> fdisplay (shown (Name ''enum'') (PInt 2) ''audio'') = ''audio''
        \<and> contains track_audio_no_channels [Name ''Audio'']
        \<and> lookup track_audio_no_channels [Name ''Audio'', Name ''SamplingFrequency'', Name ''float'']
          = Some (leaf (Name ''float'') (PFloat 44100))
        \<and> py_int (fvalue (leaf (Name ''float'') (PFloat 44100))) = Inr 44100
        \<and> lookup track_audio_no_channels [Name ''Audio'', Name ''Channels'', Name ''unsigned'']
          = None"
    by (simp add: track_audio_no_channels_def eval_tree)
  have common_v: "trackCommon track_video_no_width Metadata = Metadata(title := [PUni ''main''])"
    by (simp add: trackCommon_def track_video_no_width_def eval_tree eval_record)
  have common_a: "trackCommon track_audio_no_channels Metadata = Metadata"
    by (simp add: trackCommon_def track_audio_no_channels_def eval_tree eval_record)
  from main[where track = track_video_no_width, THEN conjunct2, THEN conjunct2, THEN conjunct1,
      rule_format, OF hv]
  have tv: "track_alone track_video_no_width
     = [(''video[]'',
         setAttribute (Metadata(title := [PUni ''main''])) compression
           (fvalue (leaf (Name ''string'') (PStr ''V_X''))),
         Some ''Video stream'')]"
    by (simp only: common_v)
  have av: "map stream_view (track_alone track_video_no_width)
     = [(''video[]'', [[PUni ''main''], [], [PStr ''V_X''], [], [], [], []])]"
    by (simp add: tv stream_view_def leaf_def eval_record)
  from main[where track = track_audio_no_channels, THEN conjunct2, THEN conjunct2,
      THEN conjunct2, THEN conjunct1, rule_format, OF ha]
  have ta: "track_alone track_audio_no_channels
     = [(''audio[]'', setAttribute Metadata sample_rate (PInt 44100), Some ''Audio stream'')]"
    by (simp only: common_a)
  have aa: "map stream_view (track_alone track_audio_no_channels)
     = [(''audio[]'', [[], [], [], [], [], [PInt 44100], []])]"
    by (simp add: ta stream_view_def eval_record)
  have af: "map stream_view (track_alone track_audio_full)
     = [(''audio[]'', [[], [], [PStr ''A_Y''], [], [], [PInt 48000], [PInt 2]])]"
    by (simp add: track_alone_def processTrack_def processAudio_def audio_body_def
        audio_codec_def trackCommon_def track_audio_full_def stream_view_def group_body_def
        Let_def eval_tree eval_record)
  have arr: "array tracks_three ''TrackEntry''
     = [track_video_no_width, track_audio_no_channels, track_audio_full]"
    by (simp add: array_def array_from.simps tracks_three_def track_video_no_width_def
        track_audio_no_channels_def track_audio_full_def node_def)
  have no_missing: "processTracks MultipleMetadata tracks_three \<noteq> Inl MissingField"
    by (rule main[THEN conjunct1])
  have "\<exists>s. processTracks MultipleMetadata tracks_three = Inr s"
  proof (cases "processTracks MultipleMetadata tracks_three")
    case (Inl e)
    then have "for_each processTrack MultipleMetadata
        [track_video_no_width, track_audio_no_channels, track_audio_full] = Inl e"
      by (simp add: processTracks_def arr)
    then show ?thesis
      by (simp add: processTrack_def processVideo_def processAudio_def audio_body_def
          track_video_no_width_def track_audio_no_channels_def track_audio_full_def
          Let_def eval_tree split: sum.splits)
  next
    case (Inr s)
    then show ?thesis by blast
  qed
  then obtain s where s: "processTracks MultipleMetadata tracks_three = Inr s" ..
  from main[where self = MultipleMetadata and tracks = tracks_three and self' = s,
      THEN conjunct2, THEN conjunct1, rule_format, OF s]
  have "map stream_view (map group_body (groups s))
      = map stream_view (concat (map track_alone (array tracks_three ''TrackEntry'')))"
    by (simp add: MultipleMetadata_def)
  with s have streams: "result_streams (processTracks MultipleMetadata tracks_three)
     = Inr [(''video[]'', [[PUni ''main''], [], [PStr ''V_X''], [], [], [], []]),
            (''audio[]'', [[], [], [], [], [], [PInt 44100], []]),
            (''audio[]'', [[], [], [PStr ''A_Y''], [], [], [PInt 48000], [PInt 2]])]"
    by (simp add: result_streams_def arr av aa af)
  have h_v1: "lookup track_video_plain [Name ''TrackType'', Name ''enum''] = Some (shown (Name ''enum'') (PInt 1) ''video'')
      \<and> fdisplay (shown (Name ''enum'') (PInt 1) ''video'') = ''video''
      \<and> \<not> contains track_video_plain [Name ''Video'']"
    by (simp add: track_video_plain_def eval_tree)
  note e_v1 = main[where track = track_video_plain and self = MultipleMetadata and t = "shown (Name ''enum'') (PInt 1) ''video''",
      THEN conjunct2, THEN conjunct2, THEN conjunct2, THEN conjunct2, THEN conjunct1, rule_format, OF h_v1]
  have r_v1: "result_streams (processTrack MultipleMetadata track_video_plain)
      = Inr [(''video[]'', [[PUni ''main''], [], [], [], [], [], []])]"
    unfolding e_v1
    by (simp add: result_streams_def group_body_def stream_view_def trackCommon_def
        value_at_def track_video_plain_def Let_def eval_tree eval_record)
  have h_v2: "lookup track_video_no_width [Name ''TrackType'', Name ''enum''] = Some (shown (Name ''enum'') (PInt 1) ''video'')
      \<and> fdisplay (shown (Name ''enum'') (PInt 1) ''video'') = ''video''
      \<and> contains track_video_no_width [Name ''Video'']"
    by (simp add: track_video_no_width_def eval_tree)
  note e_v2 = main[where track = track_video_no_width and self = MultipleMetadata and t = "shown (Name ''enum'') (PInt 1) ''video''",
      THEN conjunct2, THEN conjunct2, THEN conjunct2, THEN conjunct2, THEN conjunct2, THEN conjunct1, rule_format, OF h_v2]
  have r_v2: "result_streams (processTrack MultipleMetadata track_video_no_width)
      = Inr [(''video[]'', [[PUni ''main''], [], [PStr ''V_X''], [], [], [], []])]"
    unfolding e_v2
    by (simp add: result_streams_def group_body_def stream_view_def trackCommon_def
        value_at_def track_video_no_width_def Let_def eval_tree eval_record)
  have h_a1: "lookup track_audio_plain [Name ''TrackType'', Name ''enum''] = Some (shown (Name ''enum'') (PInt 2) ''audio'')
      \<and> fdisplay (shown (Name ''enum'') (PInt 2) ''audio'') = ''audio''
      \<and> \<not> contains track_audio_plain [Name ''Audio'']"
    by (simp add: track_audio_plain_def eval_tree)
  note e_a1 = main[where track = track_audio_plain and self = MultipleMetadata and t = "shown (Name ''enum'') (PInt 2) ''audio''",
      THEN conjunct2, THEN conjunct2, THEN conjunct2, THEN conjunct2, THEN conjunct2, THEN conjunct2, THEN conjunct1, rule_format, OF h_a1]
  have r_a1: "result_streams (processTrack MultipleMetadata track_audio_plain)
      = Inr [(''audio[]'', [[], [], [PStr ''A_X''], [], [], [], []])]"
    unfolding e_a1
    by (simp add: result_streams_def group_body_def stream_view_def trackCommon_def
        value_at_def track_audio_plain_def Let_def eval_tree eval_record)
  have h_a2: "lookup track_audio_no_frequency [Name ''TrackType'', Name ''enum''] = Some (shown (Name ''enum'') (PInt 2) ''audio'')
      \<and> fdisplay (shown (Name ''enum'') (PInt 2) ''audio'') = ''audio''
      \<and> contains track_audio_no_frequency [Name ''Audio'']
      \<and> lookup track_audio_no_frequency
            [Name ''Audio'', Name ''SamplingFrequency'', Name ''float''] = None"
    by (simp add: track_audio_no_frequency_def eval_tree)
  note e_a2 = main[where track = track_audio_no_frequency and self = MultipleMetadata and t = "shown (Name ''enum'') (PInt 2) ''audio''",
      THEN conjunct2, THEN conjunct2, THEN conjunct2, THEN conjunct2, THEN conjunct2, THEN conjunct2, THEN conjunct2, THEN conjunct1, rule_format, OF h_a2]
  have r_a2: "result_streams (processTrack MultipleMetadata track_audio_no_frequency)
      = Inr [(''audio[]'', [[], [PUni ''French''], [], [], [], [], []])]"
    unfolding e_a2
    by (simp add: result_streams_def group_body_def stream_view_def trackCommon_def
        value_at_def track_audio_no_frequency_def Let_def eval_tree eval_record)
  have h_a3: "lookup track_audio_full [Name ''TrackType'', Name ''enum''] = Some (shown (Name ''enum'') (PInt 2) ''audio'')
      \<and> fdisplay (shown (Name ''enum'') (PInt 2) ''audio'') = ''audio''
      \<and> contains track_audio_full [Name ''Audio'']
      \<and> lookup track_audio_full [Name ''Audio'', Name ''SamplingFrequency'', Name ''float'']
          = Some (leaf (Name ''float'') (PFloat 48000))
      \<and> py_int (fvalue (leaf (Name ''float'') (PFloat 48000))) = Inr 48000"
    by (simp add: track_audio_full_def eval_tree)
  note e_a3 = main[where track = track_audio_full and self = MultipleMetadata and t = "shown (Name ''enum'') (PInt 2) ''audio''" and f = "leaf (Name ''float'') (PFloat 48000)" and n = "48000",
      THEN conjunct2, THEN conjunct2, THEN conjunct2, THEN conjunct2, THEN conjunct2, THEN conjunct2, THEN conjunct2, THEN conjunct2, THEN conjunct1, rule_format, OF h_a3]
  have r_a3: "result_streams (processTrack MultipleMetadata track_audio_full)
      = Inr [(''audio[]'', [[], [], [PStr ''A_Y''], [], [], [PInt 48000], [PInt 2]])]"
    unfolding e_a3
    by (simp add: result_streams_def group_body_def stream_view_def trackCommon_def
        value_at_def track_audio_full_def Let_def eval_tree eval_record)
  have h_a4: "lookup track_audio_bad_frequency [Name ''TrackType'', Name ''enum''] = Some (shown (Name ''enum'') (PInt 2) ''audio'')
      \<and> fdisplay (shown (Name ''enum'') (PInt 2) ''audio'') = ''audio''
      \<and> contains track_audio_bad_frequency [Name ''Audio'']
      \<and> lookup track_audio_bad_frequency
            [Name ''Audio'', Name ''SamplingFrequency'', Name ''float'']
          = Some (leaf (Name ''float'') (PStr ''fast''))
      \<and> py_int (fvalue (leaf (Name ''float'') (PStr ''fast''))) = Inl TypeError"
    by (simp add: track_audio_bad_frequency_def eval_tree)
  note e_a4 = main[where track = track_audio_bad_frequency and self = MultipleMetadata and t = "shown (Name ''enum'') (PInt 2) ''audio''" and f = "leaf (Name ''float'') (PStr ''fast'')" and e = "TypeError",
      THEN conjunct2, THEN conjunct2, THEN conjunct2, THEN conjunct2, THEN conjunct2, THEN conjunct2, THEN conjunct2, THEN conjunct2, THEN conjunct2, THEN conjunct1, rule_format, OF h_a4]
  have r_a4: "processTrack MultipleMetadata track_audio_bad_frequency = Inl TypeError"
    by (rule e_a4)
  have h_s1: "lookup track_subtitle [Name ''TrackType'', Name ''enum''] = Some (shown (Name ''enum'') (PInt 17) ''subtitle'')
      \<and> fdisplay (shown (Name ''enum'') (PInt 17) ''subtitle'') = ''subtitle''"
    by (simp add: track_subtitle_def eval_tree)
  note e_s1 = main[where track = track_subtitle and self = MultipleMetadata and t = "shown (Name ''enum'') (PInt 17) ''subtitle''",
      THEN conjunct2, THEN conjunct2, THEN conjunct2, THEN conjunct2, THEN conjunct2, THEN conjunct2, THEN conjunct2, THEN conjunct2, THEN conjunct2, THEN conjunct2, THEN conjunct1, rule_format, OF h_s1]
  have r_s1: "result_streams (processTrack MultipleMetadata track_subtitle)
      = Inr [(''subtitle[]'', [[], [], [], [], [], [], []])]"
    unfolding e_s1
    by (simp add: result_streams_def group_body_def stream_view_def trackCommon_def
        value_at_def track_subtitle_def Let_def eval_tree eval_record)
  have h_u1: "lookup track_untyped [Name ''TrackType'', Name ''enum''] = None"
    by (simp add: track_untyped_def eval_tree)
  note e_u1 = main[where track = track_untyped and self = MultipleMetadata,
      THEN conjunct2, THEN conjunct2, THEN conjunct2, THEN conjunct2, THEN conjunct2, THEN conjunct2, THEN conjunct2, THEN conjunct2, THEN conjunct2, THEN conjunct2, THEN conjunct2, THEN conjunct1, rule_format, OF h_u1]
  have r_u1: "result_streams (processTrack MultipleMetadata track_untyped) = Inr []"
    unfolding e_u1
    by (simp add: result_streams_def group_body_def stream_view_def trackCommon_def
        value_at_def track_untyped_def Let_def eval_tree eval_record)
  have h_u2: "lookup track_buttons [Name ''TrackType'', Name ''enum''] = Some (shown (Name ''enum'') (PInt 18) ''buttons'')
      \<and> fdisplay (shown (Name ''enum'') (PInt 18) ''buttons'') \<noteq> ''video''
      \<and> fdisplay (shown (Name ''enum'') (PInt 18) ''buttons'') \<noteq> ''audio''
      \<and> fdisplay (shown (Name ''enum'') (PInt 18) ''buttons'') \<noteq> ''subtitle''"
    by (simp add: track_buttons_def eval_tree)
  note e_u2 = main[where track = track_buttons and self = MultipleMetadata and t = "shown (Name ''enum'') (PInt 18) ''buttons''",
      THEN conjunct2, THEN conjunct2, THEN conjunct2, THEN conjunct2, THEN conjunct2, THEN conjunct2, THEN conjunct2, THEN conjunct2, THEN conjunct2, THEN conjunct2, THEN conjunct2, THEN conjunct2, THEN conjunct1, rule_format, OF h_u2]
  have r_u2: "result_streams (processTrack MultipleMetadata track_buttons) = Inr []"
    unfolding e_u2
    by (simp add: result_streams_def group_body_def stream_view_def trackCommon_def
        value_at_def track_buttons_def Let_def eval_tree eval_record)
  from no_missing streams hv av ha aa h_v1 r_v1 h_v2 r_v2 h_a1 r_a1 h_a2 r_a2 h_a3 r_a3 h_a4 r_a4 h_s1 r_s1 h_u1 r_u1 h_u2 r_u2 show ?thesis
    by (simp add: leaf_def)
qed


section \<open>A missing root section\<close>

lemma for_each_error:
  assumes "for_each f s xs = Inl e" and "\<And>s x e. f s x = Inl e \<Longrightarrow> P e"
  shows "P e"
  using assms(1)
proof (induction xs arbitrary: s)
  case Nil
  then show ?case by simp
next
  case (Cons x xs)
  show ?case
  proof (cases "f s x")
    case (Inl e')
    with Cons.prems have "e' = e" by simp
    with Inl assms(2) show ?thesis by blast
  next
    case (Inr s1)
    with Cons.prems have "for_each f s1 xs = Inl e" by simp
    with Cons.IH show ?thesis by blast
  qed
qed

lemma for_each_skip:
  "(\<And>x s. x \<in> set xs \<Longrightarrow> f s x = Inr s) \<Longrightarrow> for_each f s xs = Inr s"
  by (induction xs) simp_all

lemma info_duration_error: "info_duration info = Inl e \<Longrightarrow> e = TypeError"
  by (auto simp: info_duration_def split: option.splits if_splits)

lemma processInfo_error: "processInfo E self info = Inl e \<Longrightarrow> e = TypeError"
  by (cases "info_duration info")
     (auto simp: processInfo_def then_do_def Let_def dest: info_duration_error)

lemma processSegment_error: "processSegment E self segment = Inl e \<Longrightarrow> e = TypeError"
proof -
  assume a: "processSegment E self segment = Inl e"
  have "\<And>s x e. processSegment_field E s x = Inl e \<Longrightarrow> e = TypeError"
    using for_each_processTrack_error processInfo_error
    by (auto simp: processSegment_field_def processTracks_def split: if_splits)
  with a show ?thesis
    unfolding processSegment_def by (rule for_each_error)
qed

text \<open>
  Claim C1, amended.  Only the Matroska extractor has a mandatory root section: it raises
  the format error exactly when \<^verbatim>\<open>Segment[0]\<close> is absent.  The ASF extractor on a tree
  without \<^verbatim>\<open>header/content\<close> and the MOV extractor on a tree none of whose atoms holds a
  \<^verbatim>\<open>movie\<close> return the record as it was, without an error.  The FLV extractor has no
  mandatory section: on a tree with no audio header, no video header and no side-channel
  block it returns the record with the format version.
\<close>

theorem missing_root:
  "(\<not> contains mkv [Idx ''Segment'' 0]
      \<longrightarrow> MkvMetadata_extract E self mkv = Inl (HachoirError ''Invalid Matroska video''))
   \<and> (contains mkv [Idx ''Segment'' 0]
      \<longrightarrow> (\<forall>msg. MkvMetadata_extract E self mkv \<noteq> Inl (HachoirError msg)))
   \<and> (\<not> contains asf [Name ''header'', Name ''content'']
      \<longrightarrow> AsfMetadata_extract E self asf = Inr self)
   \<and> ((\<forall>atom \<in> set (fchildren mov). \<not> contains atom [Name ''movie''])
      \<longrightarrow> MovMetadata_extract E m mov = Inr m)
   \<and> (\<not> contains flv [Idx ''audio'' 0] \<and> \<not> contains flv [Idx ''video'' 0]
        \<and> \<not> contains flv [Name ''metadata'', Idx ''entry'' 1] \<and> \<not> has (attrs self) duration
      \<longrightarrow> FlvMetadata_extract E self flv
          = Inr (set_self self format_version (PUni (fdescription flv))))"
proof (intro conjI impI allI)
  assume "\<not> contains mkv [Idx ''Segment'' 0]"
  then show "MkvMetadata_extract E self mkv = Inl (HachoirError ''Invalid Matroska video'')"
    by (simp add: MkvMetadata_extract_def)
next
  fix msg
  assume c: "contains mkv [Idx ''Segment'' 0]"
  show "MkvMetadata_extract E self mkv \<noteq> Inl (HachoirError msg)"
  proof
    assume "MkvMetadata_extract E self mkv = Inl (HachoirError msg)"
    with c have "for_each (processSegment E) self (array mkv ''Segment'')
        = Inl (HachoirError msg)"
      by (simp add: MkvMetadata_extract_def)
    then have "HachoirError msg = TypeError"
      by (rule for_each_error) (rule processSegment_error)
    then show False by simp
  qed
next
  assume "\<not> contains asf [Name ''header'', Name ''content'']"
  then show "AsfMetadata_extract E self asf = Inr self"
    by (simp add: AsfMetadata_extract_def contains_def)
next
  assume "\<forall>atom \<in> set (fchildren mov). \<not> contains atom [Name ''movie'']"
  then show "MovMetadata_extract E m mov = Inr m"
    unfolding MovMetadata_extract_def
    by (intro for_each_skip) (simp add: contains_def)
next
  assume "\<not> contains flv [Idx ''audio'' 0] \<and> \<not> contains flv [Idx ''video'' 0]
        \<and> \<not> contains flv [Name ''metadata'', Idx ''entry'' 1] \<and> \<not> has (attrs self) duration"
  then show "FlvMetadata_extract E self flv
          = Inr (set_self self format_version (PUni (fdescription flv)))"
    by (simp add: FlvMetadata_extract_def contains_def then_do_def Let_def has_def
        attrs_set_self setAttribute_other)
qed

theorem missing_root_witness:
  "\<not> contains empty_tree [Idx ''Segment'' 0]
   \<and> MkvMetadata_extract plain_externals MultipleMetadata empty_tree
       = Inl (HachoirError ''Invalid Matroska video'')
   \<and> contains mkv_two_infos [Idx ''Segment'' 0]
   \<and> MkvMetadata_extract plain_externals MultipleMetadata mkv_two_infos
       \<noteq> Inl (HachoirError ''Invalid Matroska video'')
   \<and> \<not> contains empty_tree [Name ''header'', Name ''content'']
   \<and> AsfMetadata_extract plain_externals MultipleMetadata empty_tree = Inr MultipleMetadata
   \<and> fchildren mov_no_movie = [node (Idx ''atom'' 0) [leaf (Name ''size'') (PInt 8)]]
   \<and> \<not> contains (node (Idx ''atom'' 0) [leaf (Name ''size'') (PInt 8)]) [Name ''movie'']
   \<and> MovMetadata_extract plain_externals Metadata mov_no_movie = Inr Metadata
   \<and> (\<not> contains flv_bare [Idx ''audio'' 0] \<and> \<not> contains flv_bare [Idx ''video'' 0]
        \<and> \<not> contains flv_bare [Name ''metadata'', Idx ''entry'' 1]
        \<and> \<not> has (attrs MultipleMetadata) duration)
   \<and> result_get (FlvMetadata_extract plain_externals MultipleMetadata flv_bare) format_version
       = Inr (Some (PUni ''FLV v1''))"
proof -
  note main = missing_root[where E = plain_externals and self = MultipleMetadata]
  have h1: "\<not> contains empty_tree [Idx ''Segment'' 0]"
    and h3: "\<not> contains empty_tree [Name ''header'', Name ''content'']"
    by (simp_all add: empty_tree_def eval_tree)
  have h2: "contains mkv_two_infos [Idx ''Segment'' 0]"
    by (simp add: mkv_two_infos_def segment_two_infos_def eval_tree)
  have h4a: "fchildren mov_no_movie = [node (Idx ''atom'' 0) [leaf (Name ''size'') (PInt 8)]]"
    by (simp add: mov_no_movie_def node_def)
  have h4b: "\<not> contains (node (Idx ''atom'' 0) [leaf (Name ''size'') (PInt 8)]) [Name ''movie'']"
    by (simp add: eval_tree)
  from h4a h4b have h4: "\<forall>atom \<in> set (fchildren mov_no_movie). \<not> contains atom [Name ''movie'']"
    by simp
  have h5: "\<not> contains flv_bare [Idx ''audio'' 0] \<and> \<not> contains flv_bare [Idx ''video'' 0]
        \<and> \<not> contains flv_bare [Name ''metadata'', Idx ''entry'' 1]
        \<and> \<not> has (attrs MultipleMetadata) duration"
    by (simp add: flv_bare_def eval_tree eval_record)
  from main[where mkv = empty_tree, THEN conjunct1, rule_format, OF h1]
  have c1: "MkvMetadata_extract plain_externals MultipleMetadata empty_tree
       = Inl (HachoirError ''Invalid Matroska video'')" .
  from main[where mkv = mkv_two_infos, THEN conjunct2, THEN conjunct1, rule_format, OF h2]
  have c2: "MkvMetadata_extract plain_externals MultipleMetadata mkv_two_infos
       \<noteq> Inl (HachoirError ''Invalid Matroska video'')" .
  from main[where asf = empty_tree, THEN conjunct2, THEN conjunct2, THEN conjunct1,
      rule_format, OF h3]
  have c3: "AsfMetadata_extract plain_externals MultipleMetadata empty_tree
       = Inr MultipleMetadata" .
  from main[where mov = mov_no_movie and m = Metadata, THEN conjunct2, THEN conjunct2,
      THEN conjunct2, THEN conjunct1, THEN mp, OF h4]
  have c4: "MovMetadata_extract plain_externals Metadata mov_no_movie = Inr Metadata" .
  from main[where flv = flv_bare, THEN conjunct2, THEN conjunct2, THEN conjunct2,
      THEN conjunct2, rule_format, OF h5]
  have c5: "result_get (FlvMetadata_extract plain_externals MultipleMetadata flv_bare)
       format_version = Inr (Some (PUni ''FLV v1''))"
    by (simp add: flv_bare_def eval_record)
  from h1 h2 h3 h4a h4b h5 c1 c2 c3 c4 c5 show ?thesis by simp
qed

text \<open>
  Claim C1 as stated fails for three of the four formats: on a tree with no children the
  ASF and the MOV extractor return the empty record, and the FLV extractor returns a record
  with the format version; none of them raises.
\<close>

theorem missing_root_counterexample:
  "fchildren empty_tree = []
   \<and> AsfMetadata_extract plain_externals MultipleMetadata empty_tree = Inr MultipleMetadata
   \<and> MovMetadata_extract plain_externals Metadata empty_tree = Inr Metadata
   \<and> fchildren flv_bare = []
   \<and> result_get (FlvMetadata_extract plain_externals MultipleMetadata flv_bare) format_version
       = Inr (Some (PUni ''FLV v1''))"
  by (simp add: empty_tree_def flv_bare_def AsfMetadata_extract_def MovMetadata_extract_def
      FlvMetadata_extract_def Let_def eval_tree eval_record)

section \<open>Flash Video\<close>

lemma then_do_Inr: "then_do r f = Inr y \<longleftrightarrow> (\<exists>x. r = Inr x \<and> f x = Inr y)"
  by (cases r) (simp_all add: then_do_def)

lemma amf_item_frame:
  assumes "amf_item self entry = Inr self'"
  shows "attrs self' bit_rate = attrs self bit_rate \<and> groups self' = groups self"
  using assms unfolding amf_item_def Let_def
  by (auto simp: then_do_Inr attrs_set_self groups_set_self setAttribute_other
      split: if_splits)

lemma extractAMF_frame:
  assumes "extractAMF self amf = Inr self'"
  shows "attrs self' bit_rate = attrs self bit_rate \<and> groups self' = groups self"
proof -
  from assms have ok: "for_each amf_item self (array amf ''item'') = Inr self'"
    by (simp add: extractAMF_def)
  have "attrs self' bit_rate = attrs self bit_rate \<and> groups self' = groups self"
    by (rule for_each_invariant[OF ok, where P = "\<lambda>s. attrs s bit_rate = attrs self bit_rate
          \<and> groups s = groups self"])
       (auto dest: amf_item_frame)
  then show ?thesis .
qed

text \<open>The stages of \<open>FlvMetadata_extract\<close>: the two stream headers, then the side channel.\<close>

lemma FlvMetadata_extract_stages:
  assumes "FlvMetadata_extract E self flv = Inr self'"
  obtains s4 ga gv where
    "attrs s4 bit_rate = attrs self bit_rate"
    and "groups self' = groups s4"
    and "map group_body (groups s4) = map group_body (groups self) @ ga @ gv"
    and "lookup flv [Idx ''audio'' 0] = None \<longrightarrow> ga = []"
    and "\<forall>a. lookup flv [Idx ''audio'' 0] = Some a
            \<longrightarrow> (\<exists>m. flv_audio E a = Inr m \<and> ga = [(''audio'', m, None)])"
    and "lookup flv [Idx ''video'' 0] = None \<longrightarrow> gv = []"
    and "\<forall>v. lookup flv [Idx ''video'' 0] = Some v
            \<longrightarrow> (\<exists>m. flv_video v = Inr m \<and> gv = [(''video'', m, None)])"
    and "has (attrs s4) duration
          \<longrightarrow> (\<exists>rate. flv_bit_rate flv (get (attrs s4) duration) = Inr rate
                \<and> self' = set_self s4 bit_rate rate)"
    and "\<not> has (attrs s4) duration \<longrightarrow> self' = s4"
proof -
  from assms obtain s1 s2 s4 where
    a: "(case lookup flv [Idx ''audio'' 0] of
          None \<Rightarrow> Inr self
        | Some audio \<Rightarrow>
            then_do (flv_audio E audio) (\<lambda>meta. Inr (addGroup self ''audio'' meta None)))
        = Inr s1"
    and v: "(case lookup flv [Idx ''video'' 0] of
               None \<Rightarrow> Inr s1
             | Some video \<Rightarrow>
                 then_do (flv_video video) (\<lambda>meta. Inr (addGroup s1 ''video'' meta None)))
        = Inr s2"
    and m: "(case lookup flv [Name ''metadata'', Idx ''entry'' 1] of
               None \<Rightarrow> Inr (set_self s2 format_version (PUni (fdescription flv)))
             | Some amf \<Rightarrow>
                 extractAMF (set_self s2 format_version (PUni (fdescription flv))) amf)
        = Inr s4"
    and f: "(if has (attrs s4) duration then
               then_do (flv_bit_rate flv (get (attrs s4) duration)) (\<lambda>rate.
                 Inr (set_self s4 bit_rate rate))
             else Inr s4) = Inr self'"
    unfolding FlvMetadata_extract_def Let_def then_do_Inr by blast
  from a obtain ga where a': "attrs s1 = attrs self"
    "map group_body (groups s1) = map group_body (groups self) @ ga"
    "lookup flv [Idx ''audio'' 0] = None \<longrightarrow> ga = []"
    "\<forall>a. lookup flv [Idx ''audio'' 0] = Some a
        \<longrightarrow> (\<exists>m. flv_audio E a = Inr m \<and> ga = [(''audio'', m, None)])"
    by (cases "lookup flv [Idx ''audio'' 0]")
       (auto simp: then_do_Inr attrs_addGroup group_body_addGroup)
  from v obtain gv where v': "attrs s2 = attrs s1"
    "map group_body (groups s2) = map group_body (groups s1) @ gv"
    "lookup flv [Idx ''video'' 0] = None \<longrightarrow> gv = []"
    "\<forall>v. lookup flv [Idx ''video'' 0] = Some v
        \<longrightarrow> (\<exists>m. flv_video v = Inr m \<and> gv = [(''video'', m, None)])"
    by (cases "lookup flv [Idx ''video'' 0]")
       (auto simp: then_do_Inr attrs_addGroup group_body_addGroup)
  from m have m': "attrs s4 bit_rate = attrs s2 bit_rate \<and> groups s4 = groups s2"
    by (auto simp: attrs_set_self groups_set_self setAttribute_other
        dest!: extractAMF_frame split: option.splits)
  from f have f': "groups self' = groups s4"
    by (auto simp: then_do_Inr groups_set_self split: if_splits)
  from f have f1: "has (attrs s4) duration
          \<longrightarrow> (\<exists>rate. flv_bit_rate flv (get (attrs s4) duration) = Inr rate
                \<and> self' = set_self s4 bit_rate rate)"
    and f2: "\<not> has (attrs s4) duration \<longrightarrow> self' = s4"
    by (auto simp: then_do_Inr split: if_splits)
  from a' v' m' have g: "attrs s4 bit_rate = attrs self bit_rate"
    "map group_body (groups s4) = map group_body (groups self) @ ga @ gv"
    by simp_all
  show thesis
    by (rule that[of s4 ga gv]) (fact g f' f1 f2 a'(3,4) v'(3,4))+
qed










text \<open>
  Claim C9.  The FLV extractor looks at \<^verbatim>\<open>audio[0]\<close> and \<^verbatim>\<open>video[0]\<close> only: whatever
  the tree holds, a finished extraction appends at most one audio group, built from
  \<^verbatim>\<open>audio[0]\<close>, followed by at most one video group, built from \<^verbatim>\<open>video[0]\<close>, and
  nothing else.
\<close>

theorem flv_one_group_per_kind:
  assumes "FlvMetadata_extract E self flv = Inr self'"
  shows "\<exists>ga gv. map group_body (groups self') = map group_body (groups self) @ ga @ gv
      \<and> length ga \<le> 1 \<and> length gv \<le> 1
      \<and> (lookup flv [Idx ''audio'' 0] = None \<longrightarrow> ga = [])
      \<and> (\<forall>a. lookup flv [Idx ''audio'' 0] = Some a
            \<longrightarrow> (\<exists>m. flv_audio E a = Inr m \<and> ga = [(''audio'', m, None)]))
      \<and> (lookup flv [Idx ''video'' 0] = None \<longrightarrow> gv = [])
      \<and> (\<forall>v. lookup flv [Idx ''video'' 0] = Some v
            \<longrightarrow> (\<exists>m. flv_video v = Inr m \<and> gv = [(''video'', m, None)]))"
proof -
  from assms show ?thesis
  proof (rule FlvMetadata_extract_stages)
    fix s4 ga gv
    assume g: "groups self' = groups s4"
      "map group_body (groups s4) = map group_body (groups self) @ ga @ gv"
      and a: "lookup flv [Idx ''audio'' 0] = None \<longrightarrow> ga = []"
      "\<forall>a. lookup flv [Idx ''audio'' 0] = Some a
        \<longrightarrow> (\<exists>m. flv_audio E a = Inr m \<and> ga = [(''audio'', m, None)])"
      and v: "lookup flv [Idx ''video'' 0] = None \<longrightarrow> gv = []"
      "\<forall>v. lookup flv [Idx ''video'' 0] = Some v
        \<longrightarrow> (\<exists>m. flv_video v = Inr m \<and> gv = [(''video'', m, None)])"
    from a have la: "length ga \<le> 1"
      by (cases "lookup flv [Idx ''audio'' 0]") auto
    from v have lv: "length gv \<le> 1"
      by (cases "lookup flv [Idx ''video'' 0]") auto
    from g have g': "map group_body (groups self') = map group_body (groups self) @ ga @ gv"
      by simp
    show ?thesis
      by (rule exI[of _ ga], rule exI[of _ gv]) (use g' a v la lv in simp)
  qed
qed

theorem flv_one_group_per_kind_witness:
  "lookup flv_with_duration [Idx ''audio'' 0] = Some (flv_audio_header 0)
   \<and> lookup flv_with_duration [Idx ''audio'' 1] = Some (flv_audio_header 1)
   \<and> lookup flv_with_duration [Idx ''video'' 0] = Some (flv_video_header 0)
   \<and> lookup flv_with_duration [Idx ''video'' 1] = Some (flv_video_header 1)
   \<and> result_streams (FlvMetadata_extract plain_externals MultipleMetadata flv_with_duration)
     = Inr [(''audio'', [[], [], [PUni ''MPEG-1 Layer 3''], [], [], [PInt 44100], [PInt 2]]),
            (''video'', [[], [], [PUni ''H.263''], [], [], [], []])]"
proof -
  have l: "lookup flv_with_duration [Idx ''audio'' 0] = Some (flv_audio_header 0)"
    "lookup flv_with_duration [Idx ''audio'' 1] = Some (flv_audio_header 1)"
    "lookup flv_with_duration [Idx ''video'' 0] = Some (flv_video_header 0)"
    "lookup flv_with_duration [Idx ''video'' 1] = Some (flv_video_header 1)"
    by (simp_all add: flv_with_duration_def flv_audio_header_def flv_video_header_def
        flv_side_channel_def eval_tree)
  have "\<exists>s. FlvMetadata_extract plain_externals MultipleMetadata flv_with_duration = Inr s"
    by (simp add: FlvMetadata_extract_def flv_with_duration_def flv_audio_header_def
        flv_video_header_def flv_side_channel_def flv_audio_def flv_video_def extractAMF_def
        array_def array_from.simps amf_item_def py_eq_def timedelta_def flv_bit_rate_def
        timedelta2seconds_def plain_externals_def Let_def eval_tree eval_record)
  then obtain s where s: "FlvMetadata_extract plain_externals MultipleMetadata
      flv_with_duration = Inr s" ..
  from flv_one_group_per_kind[OF s] l(1,3) obtain ga gv ma mv where
    g: "map group_body (groups s) = map group_body (groups MultipleMetadata) @ ga @ gv"
    and a: "flv_audio plain_externals (flv_audio_header 0) = Inr ma" "ga = [(''audio'', ma, None)]"
    and v: "flv_video (flv_video_header 0) = Inr mv" "gv = [(''video'', mv, None)]"
    by auto
  from a(1) have ma: "map ma [title, language, compression, width, height, sample_rate, nb_channel]
      = [[], [], [PUni ''MPEG-1 Layer 3''], [], [], [PInt 44100], [PInt 2]]"
    by (auto simp: flv_audio_def flv_audio_header_def plain_externals_def Let_def
        eval_tree eval_record)
  from v(1) have mv: "map mv [title, language, compression, width, height, sample_rate, nb_channel]
      = [[], [], [PUni ''H.263''], [], [], [], []]"
    by (auto simp: flv_video_def flv_video_header_def Let_def eval_tree eval_record)
  from g a(2) v(2) ma mv have "map stream_view (map group_body (groups s))
      = [(''audio'', [[], [], [PUni ''MPEG-1 Layer 3''], [], [], [PInt 44100], [PInt 2]]),
         (''video'', [[], [], [PUni ''H.263''], [], [], [], []])]"
    by (simp add: stream_view_def MultipleMetadata_def)
  with s l show ?thesis by (simp add: result_streams_def)
qed

section \<open>QuickTime MOV\<close>

lemma getfield_Inr: "getfield f path = Inr c \<longleftrightarrow> lookup f path = Some c"
  by (simp add: getfield_def split: option.splits)

lemma processMovieHeader_duration:
  assumes "processMovieHeader E self hdr = Inr self'"
  shows "\<exists>d ts t ms. lookup hdr [Name ''duration''] = Some d
      \<and> lookup hdr [Name ''time_scale''] = Some ts
      \<and> py_mul (fvalue d) (PInt 1000) = Inr t \<and> py_div t (fvalue ts) = Inr ms
      \<and> self' duration = setAttribute self duration ms duration"
  using assms unfolding processMovieHeader_def Let_def
  by (auto simp: then_do_Inr getfield_Inr setAttribute_other split: option.splits)

text \<open>
  Claim C8.  For every MOV movie header whose tick count and time scale are integers, a
  finished \<open>processMovieHeader\<close> has written the duration ticks \<open>\<times>\<close> 1000 divided by the time
  scale (Python 2 integer division, so the floor of the quotient): the time scale is not
  zero, the value is a candidate of the duration, and it is the value the record returns
  when no duration was written before.  The function does finish when the six fields it
  reads are present, the time scale is not zero and play speed and volume are numbers.
\<close>

theorem mov_duration_milliseconds:
  "(lookup hdr [Name ''duration''] = Some d \<and> fvalue d = PInt ticks
      \<and> lookup hdr [Name ''time_scale''] = Some ts \<and> fvalue ts = PInt scale
      \<and> processMovieHeader E self hdr = Inr self'
    \<longrightarrow> scale \<noteq> 0
        \<and> PInt (ticks * 1000 div scale) \<in> set (self' duration)
        \<and> (self duration = [] \<longrightarrow> get self' duration = Some (PInt (ticks * 1000 div scale))))
   \<and> (lookup hdr [Name ''duration''] = Some d \<and> fvalue d = PInt ticks
      \<and> lookup hdr [Name ''time_scale''] = Some ts \<and> fvalue ts = PInt scale \<and> scale \<noteq> 0
      \<and> lookup hdr [Name ''creat_date''] = Some cd
      \<and> lookup hdr [Name ''lastmod_date''] = Some lm
      \<and> lookup hdr [Name ''play_speed''] = Some ps \<and> py_num (fvalue ps) = Some speed
      \<and> lookup hdr [Name ''volume''] = Some vol \<and> py_num (fvalue vol) = Some v
    \<longrightarrow> (\<exists>self'. processMovieHeader E self hdr = Inr self'))"
proof (intro conjI impI)
  assume h: "lookup hdr [Name ''duration''] = Some d \<and> fvalue d = PInt ticks
      \<and> lookup hdr [Name ''time_scale''] = Some ts \<and> fvalue ts = PInt scale
      \<and> processMovieHeader E self hdr = Inr self'"
  then have ok: "processMovieHeader E self hdr = Inr self'" by simp
  from processMovieHeader_duration[OF ok] h obtain ms where
    ms: "py_div (PInt (ticks * 1000)) (PInt scale) = Inr ms"
    and w: "self' duration = setAttribute self duration ms duration"
    by (auto simp: py_mul_def)
  from ms have z: "scale \<noteq> 0" and v: "ms = PInt (ticks * 1000 div scale)"
    by (auto simp: py_div_def split: if_splits)
  from z show "scale \<noteq> 0" .
  from w v show "PInt (ticks * 1000 div scale) \<in> set (self' duration)"
    by (simp add: setAttribute_same is_empty_value_def)
  assume "self duration = []"
  with w v show "get self' duration = Some (PInt (ticks * 1000 div scale))"
    by (simp add: setAttribute_same is_empty_value_def get_def)
next
  assume "lookup hdr [Name ''duration''] = Some d \<and> fvalue d = PInt ticks
      \<and> lookup hdr [Name ''time_scale''] = Some ts \<and> fvalue ts = PInt scale \<and> scale \<noteq> 0
      \<and> lookup hdr [Name ''creat_date''] = Some cd
      \<and> lookup hdr [Name ''lastmod_date''] = Some lm
      \<and> lookup hdr [Name ''play_speed''] = Some ps \<and> py_num (fvalue ps) = Some speed
      \<and> lookup hdr [Name ''volume''] = Some vol \<and> py_num (fvalue vol) = Some v"
  then show "\<exists>self'. processMovieHeader E self hdr = Inr self'"
    by (simp add: processMovieHeader_def getfield_def then_do_def py_mul_def py_div_def Let_def)
qed

theorem mov_duration_milliseconds_witness:
  "(lookup mov_header [Name ''duration''] = Some (leaf (Name ''duration'') (PInt 90000))
      \<and> lookup mov_header [Name ''time_scale''] = Some (leaf (Name ''time_scale'') (PInt 600))
      \<and> (600 :: int) \<noteq> 0
      \<and> lookup mov_header [Name ''creat_date'']
          = Some (shown (Name ''creat_date'') (PDatetime 0) ''2007-01-01'')
      \<and> lookup mov_header [Name ''lastmod_date'']
          = Some (shown (Name ''lastmod_date'') (PDatetime 0) ''2007-01-02'')
      \<and> lookup mov_header [Name ''play_speed''] = Some (leaf (Name ''play_speed'') (PFloat 1))
      \<and> py_num (PFloat 1) = Some 1
      \<and> lookup mov_header [Name ''volume''] = Some (leaf (Name ''volume'') (PInt 255))
      \<and> py_num (PInt 255) = Some 255)
   \<and> (\<exists>self'. processMovieHeader plain_externals Metadata mov_header = Inr self'
        \<and> get self' duration = Some (PInt 150000))"
proof -
  note main = mov_duration_milliseconds[where hdr = mov_header and E = plain_externals
      and self = Metadata and d = "leaf (Name ''duration'') (PInt 90000)" and ticks = 90000
      and ts = "leaf (Name ''time_scale'') (PInt 600)" and scale = 600]
  have l: "lookup mov_header [Name ''duration''] = Some (leaf (Name ''duration'') (PInt 90000))"
    "lookup mov_header [Name ''time_scale''] = Some (leaf (Name ''time_scale'') (PInt 600))"
    "lookup mov_header [Name ''creat_date'']
          = Some (shown (Name ''creat_date'') (PDatetime 0) ''2007-01-01'')"
    "lookup mov_header [Name ''lastmod_date'']
          = Some (shown (Name ''lastmod_date'') (PDatetime 0) ''2007-01-02'')"
    "lookup mov_header [Name ''play_speed''] = Some (leaf (Name ''play_speed'') (PFloat 1))"
    "lookup mov_header [Name ''volume''] = Some (leaf (Name ''volume'') (PInt 255))"
    by (simp_all add: mov_header_def eval_tree)
  have v: "fvalue (leaf (Name ''duration'') (PInt 90000)) = PInt 90000"
    "fvalue (leaf (Name ''time_scale'') (PInt 600)) = PInt 600"
    "py_num (fvalue (leaf (Name ''play_speed'') (PFloat 1))) = Some 1"
    "py_num (fvalue (leaf (Name ''volume'') (PInt 255))) = Some 255"
    by (simp_all add: leaf_def)
  from main[THEN conjunct2, rule_format, of _ _ _ 1 _ 255] l v
  obtain s where s: "processMovieHeader plain_externals Metadata mov_header = Inr s"
    by auto
  from main[THEN conjunct1, rule_format, of s] l v s
  have "get s duration = Some (PInt 150000)"
    by (simp add: Metadata_def)
  with s l v show ?thesis by (simp add: leaf_def)
qed

section \<open>Advanced Systems Format: the extended descriptors\<close>

lemma for_each_skip_one:
  assumes "\<And>s. f s d = Inr s"
  shows "for_each f s (xs @ d # ys) = for_each f s (xs @ ys)"
  by (induction xs arbitrary: s) (simp_all add: assms split: sum.splits)

text \<open>
  Claim C10.  An extended descriptor whose type is the byte-array type, or whose key is in
  the skip set, or whose value is false after decoding (for a descriptor with a type and a
  string key) leaves no trace: the record and the flag that the block of the extended
  descriptors yields are the same as for the array of descriptors without it.
\<close>

theorem skipped_descriptor_is_absent:
  assumes "(lookup d [Name ''type''] = Some t \<and> py_eq (fvalue t) (TYPE_BYTE_ARRAY E))
      \<or> (lookup d [Name ''type''] = Some t \<and> lookup d [Name ''name''] = Some n
          \<and> py_text (fvalue n) = Some k \<and> k \<in> set SKIP_EXT_DESC)
      \<or> (lookup d [Name ''type''] = Some t \<and> lookup d [Name ''name''] = Some n
          \<and> py_text (fvalue n) = Some k \<and> lookup d [Name ''value''] = Some vf
          \<and> \<not> py_truth (printable_value E (fvalue vf)))"
  shows "process_ext_desc E self (pre @ d # post) = process_ext_desc E self (pre @ post)"
proof -
  from assms have "\<And>data. ext_desc_step E data d = Inr data"
    by (auto simp: ext_desc_step_def getfield_def then_do_def Let_def)
  then have "for_each (ext_desc_step E) [] (pre @ d # post)
      = for_each (ext_desc_step E) [] (pre @ post)"
    by (rule for_each_skip_one)
  then show ?thesis by (simp add: process_ext_desc_def)
qed

theorem skipped_descriptor_is_absent_witness:
  "(lookup binary_descriptor [Name ''type''] = Some (leaf (Name ''type'') (PInt 1))
      \<and> py_eq (PInt 1) (TYPE_BYTE_ARRAY plain_externals))
   \<and> process_ext_desc plain_externals MultipleMetadata
        (tool_descriptors @ binary_descriptor # [])
      = process_ext_desc plain_externals MultipleMetadata (tool_descriptors @ [])
   \<and> (lookup skip_key_descriptor [Name ''type''] = Some (leaf (Name ''type'') (PInt 0))
      \<and> lookup skip_key_descriptor [Name ''name'']
          = Some (leaf (Name ''name'') (PUni ''WMFSDKVersion''))
      \<and> py_text (PUni ''WMFSDKVersion'') = Some ''WMFSDKVersion''
      \<and> ''WMFSDKVersion'' \<in> set SKIP_EXT_DESC)
   \<and> process_ext_desc plain_externals MultipleMetadata
        ([] @ skip_key_descriptor # tool_descriptors)
      = process_ext_desc plain_externals MultipleMetadata ([] @ tool_descriptors)
   \<and> (lookup empty_descriptor [Name ''type''] = Some (leaf (Name ''type'') (PInt 0))
      \<and> lookup empty_descriptor [Name ''name''] = Some (leaf (Name ''name'') (PUni ''Author''))
      \<and> py_text (PUni ''Author'') = Some ''Author''
      \<and> lookup empty_descriptor [Name ''value''] = Some (leaf (Name ''value'') (PStr []))
      \<and> \<not> py_truth (printable_value plain_externals (PStr [])))
   \<and> process_ext_desc plain_externals MultipleMetadata
        (tool_descriptors @ empty_descriptor # tool_descriptors)
      = process_ext_desc plain_externals MultipleMetadata (tool_descriptors @ tool_descriptors)"
proof -
  have h1: "lookup binary_descriptor [Name ''type''] = Some (leaf (Name ''type'') (PInt 1))
      \<and> py_eq (fvalue (leaf (Name ''type'') (PInt 1))) (TYPE_BYTE_ARRAY plain_externals)"
    by (simp add: binary_descriptor_def descriptor_def plain_externals_def py_eq_def eval_tree)
  have h2: "lookup skip_key_descriptor [Name ''type''] = Some (leaf (Name ''type'') (PInt 0))
      \<and> lookup skip_key_descriptor [Name ''name'']
          = Some (leaf (Name ''name'') (PUni ''WMFSDKVersion''))
      \<and> py_text (fvalue (leaf (Name ''name'') (PUni ''WMFSDKVersion''))) = Some ''WMFSDKVersion''
      \<and> ''WMFSDKVersion'' \<in> set SKIP_EXT_DESC"
    by (simp add: skip_key_descriptor_def descriptor_def SKIP_EXT_DESC_def eval_tree)
  have h3: "lookup empty_descriptor [Name ''type''] = Some (leaf (Name ''type'') (PInt 0))
      \<and> lookup empty_descriptor [Name ''name''] = Some (leaf (Name ''name'') (PUni ''Author''))
      \<and> py_text (fvalue (leaf (Name ''name'') (PUni ''Author''))) = Some ''Author''
      \<and> lookup empty_descriptor [Name ''value''] = Some (leaf (Name ''value'') (PStr []))
      \<and> \<not> py_truth (printable_value plain_externals (fvalue (leaf (Name ''value'') (PStr []))))"
    by (simp add: empty_descriptor_def descriptor_def printable_value_def plain_externals_def
        eval_tree)
  note c1 = skipped_descriptor_is_absent[where E = plain_externals and self = MultipleMetadata
      and pre = tool_descriptors and post = "[]", OF disjI1, OF h1]
  note c2 = skipped_descriptor_is_absent[where E = plain_externals and self = MultipleMetadata
      and pre = "[]" and post = tool_descriptors, OF disjI2, OF disjI1, OF h2]
  note c3 = skipped_descriptor_is_absent[where E = plain_externals and self = MultipleMetadata
      and pre = tool_descriptors and post = tool_descriptors, OF disjI2, OF disjI2, OF h3]
  from h1 h2 h3 c1 c2 c3 show ?thesis by (simp add: leaf_def)
qed

lemma setAttribute_mem_cases:
  "v \<in> set (setAttribute m k' v' k) \<Longrightarrow> v \<in> set (m k) \<or> (k = k' \<and> v = v')"
  by (auto simp: setAttribute_def split: if_splits)

lemma setAttribute_mono: "v \<in> set (m k) \<Longrightarrow> v \<in> set (setAttribute m k' v' k)"
  by (auto simp: setAttribute_def)

lemma fold_store_mono:
  "v \<in> set (attrs self k) \<Longrightarrow>
   v \<in> set (attrs (fold (\<lambda>item self. store_item E self item) items self) k)"
  by (induction items arbitrary: self)
     (simp_all add: store_item_def attrs_set_self setAttribute_mono)

lemma fold_store_provenance:
  "v \<in> set (attrs (fold (\<lambda>item self. store_item E self item) items self) k) \<Longrightarrow>
   v \<in> set (attrs self k) \<or> (\<exists>item \<in> set items. store_target E item = (k, v))"
proof (induction items arbitrary: self)
  case Nil
  then show ?case by simp
next
  case (Cons item items)
  from Cons.prems have "v \<in> set (attrs (fold (\<lambda>item self. store_item E self item) items
      (store_item E self item)) k)" by simp
  from Cons.IH[OF this] show ?case
  proof
    assume "v \<in> set (attrs (store_item E self item) k)"
    then have "v \<in> set (attrs self k) \<or> (k = fst (store_target E item)
        \<and> v = snd (store_target E item))"
      by (auto simp: store_item_def attrs_set_self dest: setAttribute_mem_cases)
    then show ?thesis by (auto simp: prod_eq_iff)
  next
    assume "\<exists>i \<in> set items. store_target E i = (k, v)"
    then show ?thesis by auto
  qed
qed

lemma py_text_format2: "py_text (py_format2 E a mid b post)
    = Some (py_str E a @ mid @ py_str E b @ post)"
  by (simp add: py_format2_def Let_def)

lemma format2_not_empty: "mid \<noteq> [] \<Longrightarrow> \<not> is_empty_value (py_format2 E a mid b post)"
  by (simp add: py_format2_def Let_def is_empty_value_def)

text \<open>
  Claim C6.  When the dictionary built from the extended descriptors holds both a
  \<^verbatim>\<open>ToolName\<close> and a \<^verbatim>\<open>ToolVersion\<close> key, the block succeeds, the text
  \<^verbatim>\<open>"<name> (version <version>)"\<close> is a producer candidate of the record, and every
  candidate of every attribute of the record was there before, or is that producer, or was
  stored from an item of the dictionary whose key is neither \<^verbatim>\<open>ToolName\<close> nor
  \<^verbatim>\<open>ToolVersion\<close> (nor \<^verbatim>\<open>IsVBR\<close>): the two keys are neither remapped nor turned into a
  comment.
\<close>

theorem tool_name_and_version_merge:
  assumes "for_each (ext_desc_step E) [] descs = Inr data"
    and "dict_has data ''ToolName''" and "dict_has data ''ToolVersion''"
  shows "\<exists>self' is_vbr. process_ext_desc E self descs = Inr (self', is_vbr)
    \<and> py_text (py_format2 E (dict_value data ''ToolName'') '' (version ''
                (dict_value data ''ToolVersion'') '')'')
        = Some (py_str E (dict_value data ''ToolName'') @ '' (version ''
                @ py_str E (dict_value data ''ToolVersion'') @ '')'')
    \<and> py_format2 E (dict_value data ''ToolName'') '' (version ''
          (dict_value data ''ToolVersion'') '')'' \<in> set (attrs self' producer)
    \<and> (\<forall>k v. v \<in> set (attrs self' k) \<longrightarrow>
          v \<in> set (attrs self k)
          \<or> (k = producer
              \<and> v = py_format2 E (dict_value data ''ToolName'') '' (version ''
                      (dict_value data ''ToolVersion'') '')'')
          \<or> (\<exists>item \<in> set data. fst item \<noteq> ''ToolName'' \<and> fst item \<noteq> ''ToolVersion''
                \<and> fst item \<noteq> ''IsVBR'' \<and> store_target E item = (k, v)))"
proof -
  define merged where "merged = py_format2 E (dict_value data ''ToolName'') '' (version ''
          (dict_value data ''ToolVersion'') '')''"
  define self1 where "self1 = set_self self producer merged"
  define data1 where "data1 = dict_del (dict_del data ''ToolName'') ''ToolVersion''"
  define data2 where "data2 = (if dict_has data1 ''IsVBR'' then dict_del data1 ''IsVBR'' else data1)"
  define vbr where "vbr = (if dict_has data1 ''IsVBR''
      then Some (py_eq (dict_value data1 ''IsVBR'') (PInt 1)) else None)"
  define self' where "self' = fold (\<lambda>item self. store_item E self item) data2 self1"
  have res: "process_ext_desc E self descs = Inr (self', vbr)"
    using assms
    by (simp add: process_ext_desc_def then_do_def Let_def self'_def vbr_def data2_def
        data1_def self1_def merged_def)
  have items: "\<And>item. item \<in> set data2 \<Longrightarrow> item \<in> set data \<and> fst item \<noteq> ''ToolName''
      \<and> fst item \<noteq> ''ToolVersion'' \<and> fst item \<noteq> ''IsVBR''"
    by (force simp: data2_def data1_def dict_del_def dict_has_def map_of_eq_None_iff image_iff
        split: if_splits)
  have ne: "\<not> is_empty_value merged"
    unfolding merged_def by (rule format2_not_empty) simp
  then have "merged \<in> set (attrs self1 producer)"
    by (simp add: self1_def attrs_set_self setAttribute_same)
  then have mem: "merged \<in> set (attrs self' producer)"
    unfolding self'_def by (rule fold_store_mono)
  have prov: "\<forall>k v. v \<in> set (attrs self' k) \<longrightarrow>
          v \<in> set (attrs self k) \<or> (k = producer \<and> v = merged)
          \<or> (\<exists>item \<in> set data. fst item \<noteq> ''ToolName'' \<and> fst item \<noteq> ''ToolVersion''
                \<and> fst item \<noteq> ''IsVBR'' \<and> store_target E item = (k, v))"
  proof (intro allI impI)
    fix k v
    assume "v \<in> set (attrs self' k)"
    from fold_store_provenance[OF this[unfolded self'_def]]
    show "v \<in> set (attrs self k) \<or> (k = producer \<and> v = merged)
          \<or> (\<exists>item \<in> set data. fst item \<noteq> ''ToolName'' \<and> fst item \<noteq> ''ToolVersion''
                \<and> fst item \<noteq> ''IsVBR'' \<and> store_target E item = (k, v))"
    proof
      assume "v \<in> set (attrs self1 k)"
      then show ?thesis
        by (auto simp: self1_def attrs_set_self dest: setAttribute_mem_cases)
    next
      assume "\<exists>item \<in> set data2. store_target E item = (k, v)"
      then obtain item where "item \<in> set data2" "store_target E item = (k, v)" by blast
      with items[of item] show ?thesis by blast
    qed
  qed
  show ?thesis
    by (rule exI[of _ self'], rule exI[of _ vbr])
       (use res mem prov in \<open>simp add: py_text_format2 merged_def\<close>)
qed

theorem tool_name_and_version_merge_witness:
  "for_each (ext_desc_step plain_externals) [] tool_descriptors
     = Inr [(''ToolName'', False, PUni ''X''), (''ToolVersion'', False, PUni ''1''),
            (''IsVBR'', False, PInt 1), (''Foo'', False, PUni ''Bar'')]
   \<and> dict_has [(''ToolName'', False, PUni ''X''), (''ToolVersion'', False, PUni ''1''),
            (''IsVBR'', False, PInt 1), (''Foo'', False, PUni ''Bar'')] ''ToolName''
   \<and> dict_has [(''ToolName'', False, PUni ''X''), (''ToolVersion'', False, PUni ''1''),
            (''IsVBR'', False, PInt 1), (''Foo'', False, PUni ''Bar'')] ''ToolVersion''
   \<and> (\<exists>self' is_vbr.
         process_ext_desc plain_externals MultipleMetadata tool_descriptors = Inr (self', is_vbr)
         \<and> PUni ''X (version 1)'' \<in> set (attrs self' producer)
         \<and> set (attrs self' producer) \<subseteq> {PUni ''X (version 1)''}
         \<and> set (attrs self' comment) \<subseteq> {PUni ''Foo=Bar''})"
proof -
  define data where "data = [(''ToolName'', False, PUni ''X''), (''ToolVersion'', False, PUni ''1''),
            (''IsVBR'', False, PInt 1), (''Foo'', False, PUni ''Bar'')]"
  have h1: "for_each (ext_desc_step plain_externals) [] tool_descriptors = Inr data"
    by (simp add: data_def tool_descriptors_def descriptor_def ext_desc_step_def py_eq_def
        SKIP_EXT_DESC_def printable_value_def strip_prefix_def plain_externals_def Let_def
        eval_tree)
  have h2: "dict_has data ''ToolName''" and h3: "dict_has data ''ToolVersion''"
    by (simp_all add: data_def dict_has_def)
  have merged: "py_format2 plain_externals (dict_value data ''ToolName'') '' (version ''
      (dict_value data ''ToolVersion'') '')'' = PUni ''X (version 1)''"
    by (simp add: data_def dict_value_def py_format2_def py_str_def)
  have targets: "\<And>item k v. item \<in> set data \<Longrightarrow> fst item \<noteq> ''ToolName''
      \<Longrightarrow> fst item \<noteq> ''ToolVersion'' \<Longrightarrow> fst item \<noteq> ''IsVBR''
      \<Longrightarrow> store_target plain_externals item = (k, v) \<Longrightarrow> k = comment \<and> v = PUni ''Foo=Bar''"
    by (auto simp: data_def store_target_def EXT_DESC_TO_ATTR_def py_str_def plain_externals_def)
  from tool_name_and_version_merge[OF h1 h2 h3, of MultipleMetadata]
  obtain self' is_vbr where
    r: "process_ext_desc plain_externals MultipleMetadata tool_descriptors = Inr (self', is_vbr)"
    and m: "PUni ''X (version 1)'' \<in> set (attrs self' producer)"
    and p: "\<forall>k v. v \<in> set (attrs self' k) \<longrightarrow>
          v \<in> set (attrs MultipleMetadata k)
          \<or> (k = producer \<and> v = PUni ''X (version 1)'')
          \<or> (\<exists>item \<in> set data. fst item \<noteq> ''ToolName'' \<and> fst item \<noteq> ''ToolVersion''
                \<and> fst item \<noteq> ''IsVBR'' \<and> store_target plain_externals item = (k, v))"
    unfolding merged by blast
  have e: "\<And>k. attrs MultipleMetadata k = []"
    by (simp add: MultipleMetadata_def Metadata_def)
  have sp: "set (attrs self' producer) \<subseteq> {PUni ''X (version 1)''}"
  proof
    fix v assume "v \<in> set (attrs self' producer)"
    with p have "v \<in> set (attrs MultipleMetadata producer)
          \<or> (producer = producer \<and> v = PUni ''X (version 1)'')
          \<or> (\<exists>item \<in> set data. fst item \<noteq> ''ToolName'' \<and> fst item \<noteq> ''ToolVersion''
                \<and> fst item \<noteq> ''IsVBR'' \<and> store_target plain_externals item = (producer, v))"
      by blast
    then show "v \<in> {PUni ''X (version 1)''}"
      using targets[where k = producer and v = v] by (fastforce simp: e)
  qed
  have sc: "set (attrs self' comment) \<subseteq> {PUni ''Foo=Bar''}"
  proof
    fix v assume "v \<in> set (attrs self' comment)"
    with p have "v \<in> set (attrs MultipleMetadata comment)
          \<or> (comment = producer \<and> v = PUni ''X (version 1)'')
          \<or> (\<exists>item \<in> set data. fst item \<noteq> ''ToolName'' \<and> fst item \<noteq> ''ToolVersion''
                \<and> fst item \<noteq> ''IsVBR'' \<and> store_target plain_externals item = (comment, v))"
      by blast
    then show "v \<in> {PUni ''Foo=Bar''}"
      using targets[where k = comment and v = v] by (fastforce simp: e)
  qed
  from r m sp sc have "\<exists>self' is_vbr.
         process_ext_desc plain_externals MultipleMetadata tool_descriptors = Inr (self', is_vbr)
         \<and> PUni ''X (version 1)'' \<in> set (attrs self' producer)
         \<and> set (attrs self' producer) \<subseteq> {PUni ''X (version 1)''}
         \<and> set (attrs self' comment) \<subseteq> {PUni ''Foo=Bar''}"
    by blast
  with h1 h2 h3 show ?thesis unfolding data_def by blast
qed

section \<open>Advanced Systems Format: the bit rate and the VBR flag\<close>

lemma store_target_not_bit_rate: "bit_rate \<noteq> fst (store_target E item)"
  by (auto simp: store_target_def EXT_DESC_TO_ATTR_def split: prod.splits option.splits if_splits)

lemma fold_store_bit_rate:
  "attrs (fold (\<lambda>item self. store_item E self item) items self) bit_rate = attrs self bit_rate"
  by (induction items arbitrary: self)
     (simp_all add: store_item_def attrs_set_self setAttribute_other store_target_not_bit_rate)

lemma process_ext_desc_bit_rate:
  assumes "process_ext_desc E self descs = Inr (s1, v)"
  shows "attrs s1 bit_rate = attrs self bit_rate"
  using assms
  by (auto simp: process_ext_desc_def then_do_Inr Let_def fold_store_bit_rate attrs_set_self
      setAttribute_other split: if_splits)

lemma ext_desc_phase_bit_rate:
  assumes "ext_desc_phase E self header = Inr (s1, v)"
  shows "attrs s1 bit_rate = attrs self bit_rate"
  using assms
  by (auto simp: ext_desc_phase_def dest: process_ext_desc_bit_rate split: option.splits)

lemma file_prop_phase_bit_rate:
  assumes "file_prop_phase E s1 header v = Inr s2"
    and "lookup header [Name ''file_prop'', Name ''content''] = Some prop"
  shows "\<exists>mb. lookup prop [Name ''max_bitrate''] = Some mb
     \<and> attrs s2 bit_rate
        = setAttribute (attrs s1) bit_rate
            (PPair (fvalue mb) (PUni (bit_rate_text v (fdisplay mb)))) bit_rate"
  using assms
  by (auto simp: file_prop_phase_def then_do_Inr getfield_Inr Let_def attrs_set_self
      setAttribute_other setAttribute_same)

lemma stream_step_attrs:
  assumes "stream_step header st stream_prop = Inr st'"
  shows "attrs (fst st') = attrs (fst st)"
  using assms
  by (cases st)
     (auto simp: stream_step_def then_do_Inr Let_def attrs_addGroup
       split: option.splits if_splits)

lemma streams_phase_attrs:
  assumes "streams_phase self header = Inr self'"
  shows "attrs self' = attrs self"
proof -
  from assms obtain st where ok: "for_each (stream_step header) (self, 0, 1, 1)
      (array header ''stream_prop'') = Inr st" and s: "self' = fst st"
    by (auto simp: streams_phase_def then_do_Inr)
  have "attrs (fst st) = attrs self"
    by (rule for_each_invariant[OF ok, where P = "\<lambda>st. attrs (fst st) = attrs self"])
       (auto dest: stream_step_attrs)
  with s show ?thesis by simp
qed

lemma metadata_phase_bit_rate:
  "attrs (metadata_phase self header) bit_rate = attrs self bit_rate"
  by (simp add: metadata_phase_def Let_def attrs_set_self setAttribute_other
      split: option.splits)

text \<open>
  What \<open>processHeader\<close> does for the bit rate: with a file-properties block, a finished call
  has stored the pair of the value of \<^verbatim>\<open>max_bitrate\<close> and a text, and the text depends on
  the flag \<^verbatim>\<open>is_vbr\<close> that the block of the extended descriptors yields.
\<close>

lemma processHeader_bit_rate:
  assumes "processHeader E self header = Inr self'"
    and "lookup header [Name ''file_prop'', Name ''content''] = Some prop"
  shows "\<exists>mb s1 is_vbr. lookup prop [Name ''max_bitrate''] = Some mb
    \<and> ext_desc_phase E self header = Inr (s1, is_vbr)
    \<and> PPair (fvalue mb) (PUni (bit_rate_text is_vbr (fdisplay mb))) \<in> set (attrs self' bit_rate)
    \<and> (attrs self bit_rate = []
        \<longrightarrow> get (attrs self') bit_rate
            = Some (PPair (fvalue mb) (PUni (bit_rate_text is_vbr (fdisplay mb)))))
    \<and> (is_vbr = Some True
        \<longrightarrow> bit_rate_text is_vbr (fdisplay mb) = ''VBR ('' @ fdisplay mb @ '' max)'')
    \<and> (is_vbr = Some False \<longrightarrow> bit_rate_text is_vbr (fdisplay mb) = fdisplay mb @ '' (CBR)'')
    \<and> (is_vbr = None \<longrightarrow> bit_rate_text is_vbr (fdisplay mb) = fdisplay mb @ '' (max)'')"
proof -
  from assms(1) obtain s1 is_vbr s2 s3 where
    e: "ext_desc_phase E self header = Inr (s1, is_vbr)"
    and f: "file_prop_phase E s1 header is_vbr = Inr s2"
    and s: "streams_phase s2 header = Inr s3"
    and m: "self' = metadata_phase s3 header"
    by (auto simp: processHeader_def then_do_Inr Let_def)
  from file_prop_phase_bit_rate[OF f assms(2)] obtain mb where
    mb: "lookup prop [Name ''max_bitrate''] = Some mb"
    and b2: "attrs s2 bit_rate
        = setAttribute (attrs s1) bit_rate
            (PPair (fvalue mb) (PUni (bit_rate_text is_vbr (fdisplay mb)))) bit_rate"
    by blast
  from m streams_phase_attrs[OF s] b2 ext_desc_phase_bit_rate[OF e]
  have b: "attrs self' bit_rate
        = setAttribute (attrs self) bit_rate
            (PPair (fvalue mb) (PUni (bit_rate_text is_vbr (fdisplay mb)))) bit_rate"
    by (simp add: metadata_phase_bit_rate setAttribute_same)
  show ?thesis
    by (rule exI[of _ mb], rule exI[of _ s1], rule exI[of _ is_vbr])
       (use mb e b in \<open>simp add: setAttribute_same is_empty_value_def get_def bit_rate_text_def\<close>)
qed

text \<open>Every value that the loop over the descriptors stores is true in Python's sense.\<close>

lemma dict_set_truthy:
  "\<forall>item \<in> set d. py_truth (snd (snd item)) \<Longrightarrow> py_truth v \<Longrightarrow>
   \<forall>item \<in> set (dict_set d k b v). py_truth (snd (snd item))"
  by (induction d k b v rule: dict_set.induct) auto

lemma ext_desc_step_truthy:
  assumes "ext_desc_step E data desc = Inr data'"
    and "\<forall>item \<in> set data. py_truth (snd (snd item))"
  shows "\<forall>item \<in> set data'. py_truth (snd (snd item))"
  using assms
  by (auto simp: ext_desc_step_def then_do_Inr Let_def
      dest!: dict_set_truthy[rule_format, rotated -1]
      split: if_splits option.splits)

lemma ext_desc_loop_truthy:
  assumes "for_each (ext_desc_step E) [] descs = Inr data"
  shows "\<forall>item \<in> set data. py_truth (snd (snd item))"
  by (rule for_each_invariant[OF assms,
        where P = "\<lambda>d. \<forall>item \<in> set d. py_truth (snd (snd item))"])
     (simp, rule ext_desc_step_truthy)

lemma map_of_dict_del: "k' \<noteq> k \<Longrightarrow> map_of (dict_del d k) k' = map_of d k'"
  by (induction d) (auto simp: dict_del_def)

text \<open>
  The flag \<^verbatim>\<open>is_vbr\<close> is false only when the dictionary holds an \<^verbatim>\<open>IsVBR\<close> value that is
  true in Python's sense and differs from 1: a descriptor \<^verbatim>\<open>IsVBR\<close> whose value is false
  (the integer 0) is dropped by \<^verbatim>\<open>if not value: continue\<close> before the flag is read.
\<close>

lemma is_vbr_false_needs_true_value:
  assumes "process_ext_desc E self descs = Inr (self', Some False)"
  shows "\<exists>data b v. for_each (ext_desc_step E) [] descs = Inr data
    \<and> map_of data ''IsVBR'' = Some (b, v) \<and> py_truth v \<and> \<not> py_eq v (PInt 1)"
proof -
  from assms obtain data where d: "for_each (ext_desc_step E) [] descs = Inr data"
    by (auto simp: process_ext_desc_def then_do_Inr)
  define data1 where "data1 = (if dict_has data ''ToolName'' \<and> dict_has data ''ToolVersion''
      then dict_del (dict_del data ''ToolName'') ''ToolVersion'' else data)"
  from assms d have h: "dict_has data1 ''IsVBR''"
    and e: "\<not> py_eq (dict_value data1 ''IsVBR'') (PInt 1)"
    by (auto simp: process_ext_desc_def then_do_def Let_def data1_def split: if_splits)
  have same: "map_of data1 ''IsVBR'' = map_of data ''IsVBR''"
    by (simp add: data1_def map_of_dict_del)
  from h same obtain b v where bv: "map_of data ''IsVBR'' = Some (b, v)"
    by (auto simp: dict_has_def)
  then have "(''IsVBR'', b, v) \<in> set data" by (rule map_of_SomeD)
  with ext_desc_loop_truthy[OF d] have t: "py_truth v" by auto
  from e same bv have "\<not> py_eq v (PInt 1)" by (simp add: dict_value_def)
  with d bv t show ?thesis by blast
qed

text \<open>
  Claim C7 fails on the code.  The header \<open>asf_header_cbr\<close> has a file-properties block and
  one extended descriptor, \<^verbatim>\<open>IsVBR\<close> with the value 0, a VBR flag that is false.  The
  claim asks for the text \<^verbatim>\<open>"128 Kbit/s (CBR)"\<close>; the descriptor is skipped as empty, the
  flag stays unknown, and the text is \<^verbatim>\<open>"128 Kbit/s (max)"\<close>.  With the flag 1 the text
  begins with \<^verbatim>\<open>"VBR ("\<close>, and without the descriptor it ends with \<^verbatim>\<open>"(max)"\<close>.
\<close>

theorem false_vbr_flag_is_unknown:
  "lookup asf_header_cbr [Name ''ext_desc'', Name ''content'', Idx ''descriptor'' 0]
     = Some (descriptor 0 (PInt 2) (PUni ''IsVBR'') (PInt 0))
   \<and> ext_desc_phase plain_externals MultipleMetadata asf_header_cbr
     = Inr (MultipleMetadata, None)
   \<and> result_get (processHeader plain_externals MultipleMetadata asf_header_cbr) bit_rate
     = Inr (Some (PPair (PInt 128000) (PUni ''128 Kbit/s (max)'')))
   \<and> result_get (processHeader plain_externals MultipleMetadata asf_header_vbr) bit_rate
     = Inr (Some (PPair (PInt 128000) (PUni ''VBR (128 Kbit/s max)'')))
   \<and> result_get (processHeader plain_externals MultipleMetadata asf_header_plain) bit_rate
     = Inr (Some (PPair (PInt 128000) (PUni ''128 Kbit/s (max)'')))"
proof -
  have l: "lookup asf_header_cbr [Name ''ext_desc'', Name ''content'', Idx ''descriptor'' 0]
     = Some (descriptor 0 (PInt 2) (PUni ''IsVBR'') (PInt 0))"
    by (simp add: asf_header_cbr_def asf_file_prop_def descriptor_def eval_tree)
  have e: "ext_desc_phase plain_externals MultipleMetadata asf_header_cbr
     = Inr (MultipleMetadata, None)"
    by (simp add: ext_desc_phase_def process_ext_desc_def asf_header_cbr_def asf_file_prop_def
        descriptor_def array_def array_from.simps ext_desc_step_def py_eq_def SKIP_EXT_DESC_def
        printable_value_def strip_prefix_def dict_has_def plain_externals_def Let_def eval_tree)
  have c: "result_get (processHeader plain_externals MultipleMetadata asf_header_cbr) bit_rate
     = Inr (Some (PPair (PInt 128000) (PUni ''128 Kbit/s (max)'')))"
    by (simp add: processHeader_def ext_desc_phase_def process_ext_desc_def
        file_prop_phase_def streams_phase_def metadata_phase_def bit_rate_text_def
        asf_header_cbr_def asf_file_prop_def descriptor_def
        array_def array_from.simps ext_desc_step_def py_eq_def SKIP_EXT_DESC_def
        printable_value_def strip_prefix_def dict_has_def
        plain_externals_def Let_def eval_tree eval_record)
  have v: "result_get (processHeader plain_externals MultipleMetadata asf_header_vbr) bit_rate
     = Inr (Some (PPair (PInt 128000) (PUni ''VBR (128 Kbit/s max)'')))"
    by (simp add: processHeader_def ext_desc_phase_def process_ext_desc_def
        file_prop_phase_def streams_phase_def metadata_phase_def bit_rate_text_def
        asf_header_vbr_def tool_descriptors_def asf_file_prop_def descriptor_def
        array_def array_from.simps ext_desc_step_def py_eq_def SKIP_EXT_DESC_def
        printable_value_def strip_prefix_def dict_has_def dict_value_def dict_del_def
        store_item_def store_target_def EXT_DESC_TO_ATTR_def py_format2_def py_str_def
        show_int_def show_nat.simps
        plain_externals_def Let_def eval_tree eval_record, blast?)
  have p: "result_get (processHeader plain_externals MultipleMetadata asf_header_plain) bit_rate
     = Inr (Some (PPair (PInt 128000) (PUni ''128 Kbit/s (max)'')))"
    by (simp add: processHeader_def ext_desc_phase_def
        file_prop_phase_def streams_phase_def metadata_phase_def bit_rate_text_def
        asf_header_plain_def asf_file_prop_def
        array_def array_from.simps plain_externals_def Let_def eval_tree eval_record)
  from l e c v p show ?thesis by simp
qed

end
